theory Spec2Isabelle
  imports Main
begin

section \<open>JavaScript strings\<close>

text \<open>
  A JavaScript string is modelled as a \<^typ>\<open>string\<close>: the list of its UTF-16 code units,
  each below 256 (the Latin-1 range, which holds every ASCII path and every character
  the analyzer tests for). The functions below are the \<^verbatim>\<open>String.prototype\<close> methods
  the analyzer and the suggester call.
\<close>

definition isWhiteSpace :: "char \<Rightarrow> bool" where
  \<comment> \<open>White space and line terminators of ECMAScript below 256:
      TAB, LF, VT, FF, CR, SP and NBSP. They are what \<^verbatim>\<open>trim\<close> strips and \<^verbatim>\<open>\s\<close> matches.\<close>
  "isWhiteSpace c =
     (c = CHR 0x09 \<or> c = CHR 0x0A \<or> c = CHR 0x0B \<or> c = CHR 0x0C \<or> c = CHR 0x0D
      \<or> c = CHR 0x20 \<or> c = CHR 0xA0)"

definition trim :: "string \<Rightarrow> string" where
  "trim s = rev (dropWhile isWhiteSpace (rev (dropWhile isWhiteSpace s)))"

definition isUpper :: "char \<Rightarrow> bool" where
  \<comment> \<open>The regular expression class \<^verbatim>\<open>[A-Z]\<close>.\<close>
  "isUpper c = (65 \<le> (of_char c :: nat) \<and> (of_char c :: nat) \<le> 90)"

definition lowerChar :: "char \<Rightarrow> char" where
  \<comment> \<open>\<^verbatim>\<open>toLowerCase\<close> on one code unit below 256: A-Z and the Latin-1 capitals
      (0xC0-0xDE without the multiplication sign 0xD7) move up by 32.\<close>
  "lowerChar c =
     (let n = (of_char c :: nat) in
      if (65 \<le> n \<and> n \<le> 90) \<or> (192 \<le> n \<and> n \<le> 222 \<and> n \<noteq> 215)
      then char_of (n + 32) else c)"

definition toLowerCase :: "string \<Rightarrow> string" where
  "toLowerCase s = map lowerChar s"

fun startsWith :: "string \<Rightarrow> string \<Rightarrow> bool" where
  "startsWith s [] = True"
| "startsWith [] (p # ps) = False"
| "startsWith (c # cs) (p # ps) = (c = p \<and> startsWith cs ps)"

fun str_includes :: "string \<Rightarrow> string \<Rightarrow> bool" where
  \<comment> \<open>\<^verbatim>\<open>s.includes(p)\<close>: \<open>p\<close> occurs in \<open>s\<close> as a contiguous substring.\<close>
  "str_includes [] p = (p = [])"
| "str_includes (c # cs) p = (startsWith (c # cs) p \<or> str_includes cs p)"

fun str_split :: "string \<Rightarrow> string \<Rightarrow> string list" where
  \<comment> \<open>\<^verbatim>\<open>s.split(sep)\<close> for a non-empty separator string \<open>sep\<close>: the pieces between
      the occurrences of \<open>sep\<close>, found from the left; always at least one piece.\<close>
  "str_split sep [] = [[]]"
| "str_split sep (c # cs) =
     (if sep \<noteq> [] \<and> startsWith (c # cs) sep
      then [] # str_split sep (drop (length sep - 1) cs)
      else (case str_split sep cs of
              [] \<Rightarrow> [[c]]
            | piece # pieces \<Rightarrow> (c # piece) # pieces))"

definition join :: "string \<Rightarrow> string list \<Rightarrow> string" where
  \<comment> \<open>\<^verbatim>\<open>parts.join(sep)\<close>\<close>
  "join sep parts = (case parts of [] \<Rightarrow> [] | p # ps \<Rightarrow> foldl (\<lambda>acc q. acc @ sep @ q) p ps)"

section \<open>Errors\<close>

text \<open>
  Every \<^verbatim>\<open>throw\<close> of the source is a value. \<open>Error m\<close> is \<^verbatim>\<open>new Error(m)\<close>, also the
  rejection of a query of the version-control tool with message \<open>m\<close>. \<open>TypeError p\<close> is
  the engine's error on reading property \<open>p\<close> of \<^verbatim>\<open>undefined\<close>.
\<close>

datatype error = Error string | TypeError string

fun error_message :: "error \<Rightarrow> string" where
  "error_message (Error m) = m"
| "error_message (TypeError p) =
     ''Cannot read properties of undefined (reading '' @ [CHR 0x27] @ p @ [CHR 0x27] @ '')''"

section \<open>Data\<close>

text \<open>
  A path as the analyzer holds it: a string, or \<^verbatim>\<open>undefined\<close> (\<open>None\<close>) when it was read
  from a diff record that has neither \<^verbatim>\<open>to\<close> nor \<^verbatim>\<open>from\<close>.
\<close>

type_synonym jspath = "string option"

text \<open>
  The records of the diff parsing library, which is not part of the repository: its
  output is an input of the analyzer. One \<open>change\<close> per line of a hunk, tagged by its
  \<^verbatim>\<open>type\<close> (\<^verbatim>\<open>'add'\<close>, \<^verbatim>\<open>'del'\<close>, \<^verbatim>\<open>'normal'\<close>) and carrying the line's content.
  The fields of a file record are prefixed with \<open>f_\<close>; \<^verbatim>\<open>chunks\<close>, \<^verbatim>\<open>additions\<close>,
  \<^verbatim>\<open>deletions\<close>, \<^verbatim>\<open>from\<close> and \<^verbatim>\<open>to\<close> may be absent (\<open>None\<close>), as the analyzer tests.
\<close>

datatype change = Add string | Del string | Normal string

record chunk =
  changes :: "change list"

record diff_file =
  f_chunks :: "chunk list option"
  f_additions :: "nat option"
  f_deletions :: "nat option"
  f_from :: jspath
  f_to :: jspath
  f_new :: bool
  f_deleted :: bool
  f_renamed :: bool

text \<open>A rename pair \<^verbatim>\<open>{ from, to }\<close>.\<close>

record rename =
  r_from :: jspath
  r_to :: jspath

text \<open>The object built by \<^verbatim>\<open>parsePorcelainStatus\<close> (fields prefixed with \<open>s_\<close>).\<close>

record status =
  s_modified :: "string list"
  s_created :: "string list"
  s_deleted :: "string list"
  s_renamed :: "rename list"
  s_files :: "string list"

record changeTypes =
  modified :: "jspath list"
  created :: "jspath list"
  deleted :: "jspath list"
  renamed :: "rename list"

text \<open>
  The value returned by \<^verbatim>\<open>extractFileChanges\<close>; \<open>allFiles\<close> is the \<^verbatim>\<open>Set\<close> of the source,
  kept as the list of its elements in insertion order.
\<close>

record file_changes =
  fc_changeTypes :: changeTypes
  allFiles :: "jspath list"

record lineStats =
  additions :: nat
  deletions :: nat
  total_lines :: nat

record categories =
  docs :: "string list"
  test :: "string list"
  config :: "string list"
  style :: "string list"
  source :: "string list"

record summary =
  totalFiles :: nat
  modified_count :: nat
  created_count :: nat
  deleted_count :: nat
  renamed_count :: nat
  linesAdded :: nat
  linesDeleted :: nat
  linesChanged :: nat

text \<open>
  The fields that only a result with changes has: \<^verbatim>\<open>changeTypes\<close>, \<^verbatim>\<open>files\<close>,
  \<^verbatim>\<open>categorization\<close>, \<^verbatim>\<open>diff\<close>, \<^verbatim>\<open>lineStats\<close>, \<^verbatim>\<open>parsedDiff\<close> and \<^verbatim>\<open>summary\<close>.
\<close>

record details =
  changeTypes :: changeTypes
  files :: "jspath list"
  categorization :: categories
  diff :: string
  lineStats :: lineStats
  parsedDiff :: "diff_file list"
  summary :: summary

text \<open>
  The object \<^verbatim>\<open>analyzeChanges\<close> returns. A field the object literal does not set is
  \<open>None\<close>; the seven fields of \<open>details\<close> are set together or not at all.
\<close>

record analysis =
  hasChanges :: bool
  message :: "string option"
  isFirstCommit :: "bool option"
  mode :: "string option"
  analysisScope :: string
  details :: "details option"

section \<open>The configuration (\<^verbatim>\<open>config.js\<close>)\<close>

text \<open>
  \<^verbatim>\<open>CONFIG\<close> is one object of the module, shared by every importer, and its properties
  can be assigned. The analyzer reads \<^verbatim>\<open>CONFIG.filePatterns\<close> for every file it
  categorizes. The fields of the pattern table are prefixed with \<open>p_\<close>; the property
  \<^verbatim>\<open>commitTypes\<close>, which no function reads, is left out.
\<close>

record file_patterns =
  p_docs :: "string list"
  p_test :: "string list"
  p_config :: "string list"
  p_style :: "string list"

record configuration =
  filePatterns :: file_patterns
  maxFilesToShow :: nat
  defaultCommitType :: string
  defaultCommitMessage :: string

definition CONFIG_literal :: configuration where
  \<comment> \<open>The object literal \<^verbatim>\<open>CONFIG\<close> is bound to when the module is loaded.\<close>
  "CONFIG_literal =
     \<lparr>filePatterns =
        \<lparr>p_docs = [''.md'', ''.txt'', ''readme'', ''license'', ''changelog''],
         p_test = [''.test.'', ''.spec.'', ''__tests__'', ''test/'', ''tests/''],
         p_config = [''.json'', ''.yml'', ''.yaml'', ''.toml'', ''.config.'', ''config/'',
                     ''.env''],
         p_style = [''.css'', ''.scss'', ''.sass'', ''.less'', ''.style.'']\<rparr>,
      maxFilesToShow = 10,
      defaultCommitType = ''chore'',
      defaultCommitMessage = ''update project files''\<rparr>"

section \<open>The status parser\<close>

definition empty_status :: status where
  "empty_status =
     \<lparr>s_modified = [], s_created = [], s_deleted = [], s_renamed = [], s_files = []\<rparr>"

definition status_line :: "status \<Rightarrow> string \<Rightarrow> error + status" where
  \<comment> \<open>The body of the loop of \<^verbatim>\<open>parsePorcelainStatus\<close> on one line. When the line
      holds the arrow and the trimmed path part does not, \<^verbatim>\<open>newPath\<close> is
      \<^verbatim>\<open>undefined\<close> and \<^verbatim>\<open>newPath.trim()\<close> throws.\<close>
  "status_line st line =
     (if length line < 4 then Inr st
      else
        let index = line ! 0; workTree = line ! 1; file = trim (drop 3 line) in
        if str_includes line '' -> '' then
          (case str_split '' -> '' file of
             oldPath # newPath # rest \<Rightarrow>
               Inr (st\<lparr>s_renamed := s_renamed st @
                                  [\<lparr>r_from = Some (trim oldPath), r_to = Some (trim newPath)\<rparr>],
                        s_files := s_files st @ [trim newPath]\<rparr>)
           | _ \<Rightarrow> Inl (TypeError ''trim''))
        else if index = CHR ''M'' \<or> workTree = CHR ''M'' then
          Inr (st\<lparr>s_modified := s_modified st @ [file], s_files := s_files st @ [file]\<rparr>)
        else if index = CHR ''A'' \<or> (index = CHR ''?'' \<and> workTree = CHR ''?'') then
          Inr (st\<lparr>s_created := s_created st @ [file], s_files := s_files st @ [file]\<rparr>)
        else if index = CHR ''D'' \<or> workTree = CHR ''D'' then
          Inr (st\<lparr>s_deleted := s_deleted st @ [file], s_files := s_files st @ [file]\<rparr>)
        else if index = CHR ''R'' then Inr st
        else Inr (st\<lparr>s_files := s_files st @ [file]\<rparr>))"

fun status_lines :: "status \<Rightarrow> string list \<Rightarrow> error + status" where
  \<comment> \<open>\<^verbatim>\<open>for (const line of lines)\<close>: stops at the first throw.\<close>
  "status_lines st [] = Inr st"
| "status_lines st (line # lines) =
     (case status_line st line of
        Inl e \<Rightarrow> Inl e
      | Inr st' \<Rightarrow> status_lines st' lines)"

definition parsePorcelainStatus :: "string \<Rightarrow> error + status" where
  "parsePorcelainStatus statusOutput =
     (if trim statusOutput = [] then Inr empty_status
      else status_lines empty_status (str_split [CHR 0x0A] (trim statusOutput)))"

section \<open>The change aggregator\<close>

definition set_add :: "'a \<Rightarrow> 'a list \<Rightarrow> 'a list" where
  \<comment> \<open>\<^verbatim>\<open>Set.prototype.add\<close> on the insertion-ordered list of elements.\<close>
  "set_add x s = (if x \<in> set s then s else s @ [x])"

definition empty_file_changes :: file_changes where
  "empty_file_changes =
     \<lparr>fc_changeTypes = \<lparr>modified = [], created = [], deleted = [], renamed = []\<rparr>,
      allFiles = []\<rparr>"

definition filePath_of :: "diff_file \<Rightarrow> jspath" where
  \<comment> \<open>\<^verbatim>\<open>file.to || file.from\<close>: an absent or empty \<^verbatim>\<open>to\<close> is falsy.\<close>
  "filePath_of file =
     (case f_to file of
        None \<Rightarrow> f_from file
      | Some t \<Rightarrow> if t = [] then f_from file else Some t)"

definition diff_step :: "file_changes \<Rightarrow> diff_file \<Rightarrow> file_changes" where
  \<comment> \<open>The body of the first loop of \<^verbatim>\<open>extractFileChanges\<close> (over the parsed diff).\<close>
  "diff_step fc file =
     (let filePath = filePath_of file; ct = fc_changeTypes fc in
      if f_deleted file then
        \<lparr>fc_changeTypes = ct\<lparr>deleted := deleted ct @ [filePath]\<rparr>,
         allFiles = set_add filePath (allFiles fc)\<rparr>
      else if f_new file then
        \<lparr>fc_changeTypes = ct\<lparr>created := created ct @ [filePath]\<rparr>,
         allFiles = set_add filePath (allFiles fc)\<rparr>
      else if f_renamed file then
        \<lparr>fc_changeTypes = ct\<lparr>renamed := renamed ct @ [\<lparr>r_from = f_from file, r_to = f_to file\<rparr>]\<rparr>,
         allFiles = set_add (f_to file) (allFiles fc)\<rparr>
      else
        \<lparr>fc_changeTypes = ct\<lparr>modified := modified ct @ [filePath]\<rparr>,
         allFiles = set_add filePath (allFiles fc)\<rparr>)"

definition merge_modified :: "file_changes \<Rightarrow> string \<Rightarrow> file_changes" where
  \<comment> \<open>The body of the loop over \<^verbatim>\<open>status.modified\<close>.\<close>
  "merge_modified fc file =
     (if Some file \<in> set (allFiles fc) then fc
      else \<lparr>fc_changeTypes = (fc_changeTypes fc)\<lparr>modified := modified (fc_changeTypes fc) @ [Some file]\<rparr>,
            allFiles = set_add (Some file) (allFiles fc)\<rparr>)"

definition merge_created :: "file_changes \<Rightarrow> string \<Rightarrow> file_changes" where
  \<comment> \<open>The body of the loop over \<^verbatim>\<open>status.created\<close>.\<close>
  "merge_created fc file =
     (if Some file \<in> set (allFiles fc) then fc
      else \<lparr>fc_changeTypes = (fc_changeTypes fc)\<lparr>created := created (fc_changeTypes fc) @ [Some file]\<rparr>,
            allFiles = set_add (Some file) (allFiles fc)\<rparr>)"

definition merge_deleted :: "file_changes \<Rightarrow> string \<Rightarrow> file_changes" where
  \<comment> \<open>The body of the loop over \<^verbatim>\<open>status.deleted\<close>.\<close>
  "merge_deleted fc file =
     (if Some file \<in> set (allFiles fc) then fc
      else \<lparr>fc_changeTypes = (fc_changeTypes fc)\<lparr>deleted := deleted (fc_changeTypes fc) @ [Some file]\<rparr>,
            allFiles = set_add (Some file) (allFiles fc)\<rparr>)"

definition merge_renamed :: "file_changes \<Rightarrow> rename \<Rightarrow> file_changes" where
  \<comment> \<open>The body of the loop over \<^verbatim>\<open>status.renamed\<close>:
      \<^verbatim>\<open>changeTypes.renamed.find(r => r.to === rename.to)\<close> decides.\<close>
  "merge_renamed fc rn =
     (if list_ex (\<lambda>r. r_to r = r_to rn) (renamed (fc_changeTypes fc)) then fc
      else \<lparr>fc_changeTypes = (fc_changeTypes fc)\<lparr>renamed := renamed (fc_changeTypes fc) @ [rn]\<rparr>,
            allFiles = set_add (r_to rn) (allFiles fc)\<rparr>)"

definition extractFileChanges :: "diff_file list \<Rightarrow> status \<Rightarrow> file_changes" where
  "extractFileChanges parsed st =
     foldl merge_renamed
       (foldl merge_deleted
          (foldl merge_created
             (foldl merge_modified
                (foldl diff_step empty_file_changes parsed)
                (s_modified st))
             (s_created st))
          (s_deleted st))
       (s_renamed st)"

section \<open>Line statistics\<close>

fun count_change :: "nat \<times> nat \<Rightarrow> change \<Rightarrow> nat \<times> nat" where
  \<comment> \<open>The innermost loop body of \<^verbatim>\<open>calculateLineStats\<close> on the pair
      (additions, deletions).\<close>
  "count_change (a, d) (Add l) = (a + 1, d)"
| "count_change (a, d) (Del l) = (a, d + 1)"
| "count_change (a, d) (Normal l) = (a, d)"

definition count_chunk :: "nat \<times> nat \<Rightarrow> chunk \<Rightarrow> nat \<times> nat" where
  "count_chunk ad ch = foldl count_change ad (changes ch)"

definition count_file :: "nat \<times> nat \<Rightarrow> diff_file \<Rightarrow> nat \<times> nat" where
  \<comment> \<open>The outer loop body: the hunks when \<^verbatim>\<open>file.chunks\<close> is there, then the
      file-level counts when they are defined.\<close>
  "count_file ad file =
     (let (a1, d1) = (case f_chunks file of
                        None \<Rightarrow> ad
                      | Some chs \<Rightarrow> foldl count_chunk ad chs);
          a2 = (case f_additions file of None \<Rightarrow> a1 | Some n \<Rightarrow> a1 + n);
          d2 = (case f_deletions file of None \<Rightarrow> d1 | Some n \<Rightarrow> d1 + n)
      in (a2, d2))"

definition calculateLineStats :: "diff_file list \<Rightarrow> lineStats" where
  "calculateLineStats parsed =
     (let (a, d) = foldl count_file (0, 0) parsed
      in \<lparr>additions = a, deletions = d, total_lines = a + d\<rparr>)"

section \<open>The file categorizer\<close>

definition matches :: "string list \<Rightarrow> string \<Rightarrow> bool" where
  \<comment> \<open>\<^verbatim>\<open>patterns.some(pattern => fileLower.includes(pattern))\<close>\<close>
  "matches patterns fileLower = list_ex (\<lambda>pattern. str_includes fileLower pattern) patterns"

definition empty_categories :: categories where
  "empty_categories = \<lparr>docs = [], test = [], config = [], style = [], source = []\<rparr>"

definition categorize_step :: "configuration \<Rightarrow> categories \<Rightarrow> string \<Rightarrow> categories" where
  \<comment> \<open>The loop body of \<^verbatim>\<open>categorizeFiles\<close> on a string: the first matching
      bucket, in the order docs, test, config, style; else source. \<open>cfg\<close> is the
      value of \<^verbatim>\<open>CONFIG\<close> when the function runs.\<close>
  "categorize_step cfg cats file =
     (let fileLower = toLowerCase file in
      if matches (p_docs (filePatterns cfg)) fileLower
      then cats\<lparr>docs := docs cats @ [file]\<rparr>
      else if matches (p_test (filePatterns cfg)) fileLower
      then cats\<lparr>test := test cats @ [file]\<rparr>
      else if matches (p_config (filePatterns cfg)) fileLower
      then cats\<lparr>config := config cats @ [file]\<rparr>
      else if matches (p_style (filePatterns cfg)) fileLower
      then cats\<lparr>style := style cats @ [file]\<rparr>
      else cats\<lparr>source := source cats @ [file]\<rparr>)"

fun categorize_loop ::
  "configuration \<Rightarrow> categories \<Rightarrow> jspath list \<Rightarrow> error + categories"
where
  \<comment> \<open>\<^verbatim>\<open>for (const file of files)\<close>: on \<^verbatim>\<open>undefined\<close>, \<^verbatim>\<open>file.toLowerCase()\<close> throws.\<close>
  "categorize_loop cfg cats [] = Inr cats"
| "categorize_loop cfg cats (None # fs) = Inl (TypeError ''toLowerCase'')"
| "categorize_loop cfg cats (Some file # fs) =
     categorize_loop cfg (categorize_step cfg cats file) fs"

definition categorizeFiles :: "configuration \<Rightarrow> jspath list \<Rightarrow> error + categories" where
  "categorizeFiles cfg fs = categorize_loop cfg empty_categories fs"

section \<open>The version-control tool\<close>

text \<open>
  The queries \<^verbatim>\<open>analyzeChanges\<close> sends to the tool, in the source's words:
  \<^verbatim>\<open>git.checkIsRepo()\<close>, \<^verbatim>\<open>git.raw(['rev-parse', 'HEAD'])\<close>,
  \<^verbatim>\<open>git.raw(['status', '--porcelain'])\<close>, \<^verbatim>\<open>git.diff(['--cached', 'HEAD'])\<close>,
  \<^verbatim>\<open>git.diff(['HEAD'])\<close> and \<^verbatim>\<open>git.diff()\<close>.
\<close>

datatype query =
  CheckIsRepo | RevParseHead | StatusPorcelain | DiffCachedHead | DiffHead | DiffWorkingTree

text \<open>
  What the client of the tool answers at a repository path. \<open>simpleGit\<close> is the
  construction of the client, \<^verbatim>\<open>simpleGit(repoPath)\<close>: \<open>Inl m\<close> when it throws an error
  of message \<open>m\<close> (the client refuses a directory that does not exist), \<open>Inr ()\<close> when
  it returns the client. The other fields are the responses to the queries:
  \<open>Inr\<close> the value the promise resolves to, \<open>Inl m\<close> a rejection with an error of
  message \<open>m\<close>.
\<close>

record git =
  simpleGit :: "string + unit"
  checkIsRepo :: "string + bool"
  revParseHead :: "string + string"
  statusPorcelain :: "string + string"
  diffCachedHead :: "string + string"
  diffHead :: "string + string"
  diffWorkingTree :: "string + string"

text \<open>
  The state an invocation runs in and leaves behind: the value of the shared object
  \<^verbatim>\<open>CONFIG\<close>, and the queries sent to the tool so far. Every function that awaits the
  tool takes the world and returns it.
\<close>

record world =
  CONFIG :: configuration
  queries :: "query list"

definition sent :: "query list \<Rightarrow> world \<Rightarrow> world" where
  "sent qs w = w\<lparr>queries := queries w @ qs\<rparr>"

definition checkHasHead :: "git \<Rightarrow> bool" where
  \<comment> \<open>The \<^verbatim>\<open>try\<close>/\<^verbatim>\<open>catch\<close> around \<^verbatim>\<open>rev-parse HEAD\<close>: a rejection is \<^verbatim>\<open>false\<close>.\<close>
  "checkHasHead g = (case revParseHead g of Inl m \<Rightarrow> False | Inr out \<Rightarrow> True)"

definition analyzeFirstCommit ::
  "git \<Rightarrow> (string \<Rightarrow> diff_file list) \<Rightarrow> status \<Rightarrow> world \<Rightarrow> (error + analysis) \<times> world"
where
  "analyzeFirstCommit g parseDiff st w =
     (let all_files = s_files st in
      if length all_files = 0 then
        (Inr \<lparr>hasChanges = False,
              message = Some ''No changes detected in the repository'',
              isFirstCommit = Some True,
              mode = None,
              analysisScope = ''first commit (no HEAD)'',
              details = None\<rparr>, w)
      else
        (case categorizeFiles (CONFIG w) (map Some all_files) of
           Inl e \<Rightarrow> (Inl e, w)
         | Inr cats \<Rightarrow>
             (case diffWorkingTree g of
                Inl m \<Rightarrow> (Inl (Error m), sent [DiffWorkingTree] w)
              | Inr diffOutput \<Rightarrow>
                  (let parsed = parseDiff diffOutput;
                       ls = calculateLineStats parsed
                   in (Inr \<lparr>hasChanges = True,
                             message = None,
                             isFirstCommit = Some True,
                             mode = Some ''all'',
                             analysisScope = ''first commit (no HEAD)'',
                             details = Some
                               \<lparr>changeTypes = \<lparr>modified = [], created = map Some all_files,
                                               deleted = [], renamed = []\<rparr>,
                                files = map Some all_files,
                                categorization = cats,
                                diff = diffOutput,
                                lineStats = ls,
                                parsedDiff = parsed,
                                summary = \<lparr>totalFiles = length all_files,
                                           modified_count = 0,
                                           created_count = length all_files,
                                           deleted_count = 0,
                                           renamed_count = 0,
                                           linesAdded = additions ls,
                                           linesDeleted = deletions ls,
                                           linesChanged = total_lines ls\<rparr>\<rparr>\<rparr>,
                       sent [DiffWorkingTree] w)))))"

definition getDiff :: "git \<Rightarrow> string \<Rightarrow> world \<Rightarrow> (error + string \<times> string) \<times> world" where
  \<comment> \<open>The \<^verbatim>\<open>switch (mode)\<close>: the pair (diffOutput, analysisScope).\<close>
  "getDiff g md w =
     (if md = ''staged'' then
        (case diffCachedHead g of
           Inl m \<Rightarrow> (Inl (Error m), sent [DiffCachedHead] w)
         | Inr stagedDiff \<Rightarrow> (Inr (stagedDiff, ''staged changes''), sent [DiffCachedHead] w))
      else if md = ''unstaged'' then
        (case diffHead g of
           Inl m \<Rightarrow> (Inl (Error m), sent [DiffHead] w)
         | Inr unstagedDiff \<Rightarrow> (Inr (unstagedDiff, ''unstaged changes''), sent [DiffHead] w))
      else
        (case diffCachedHead g of
           Inl m \<Rightarrow> (Inl (Error m), sent [DiffCachedHead] w)
         | Inr stagedDiff \<Rightarrow>
             (case diffHead g of
                Inl m \<Rightarrow> (Inl (Error m), sent [DiffCachedHead, DiffHead] w)
              | Inr unstagedDiff \<Rightarrow>
                  (Inr (stagedDiff @ [CHR 0x0A] @ unstagedDiff, ''all changes since last commit''),
                   sent [DiffCachedHead, DiffHead] w))))"

definition analyzeDiff ::
  "configuration \<Rightarrow> (string \<Rightarrow> diff_file list) \<Rightarrow> string \<Rightarrow> string \<Rightarrow> status \<Rightarrow> string \<Rightarrow> string
     \<Rightarrow> error + analysis"
where
  \<comment> \<open>\<^verbatim>\<open>analyzeChanges\<close> from \<^verbatim>\<open>parseDiff(diffOutput)\<close> to its \<^verbatim>\<open>return\<close>; no query is
      sent here. \<open>cfg\<close> is the value of \<^verbatim>\<open>CONFIG\<close> at that time.\<close>
  "analyzeDiff cfg parseDiff md statusOutput st diffOutput scope =
     (let parsed = parseDiff diffOutput in
      if length parsed = 0 \<and> trim statusOutput = [] then
        Inr \<lparr>hasChanges = False,
             message = Some ''No changes detected since the last commit'',
             isFirstCommit = None,
             mode = Some md,
             analysisScope = scope,
             details = None\<rparr>
      else
        (let fileChanges = extractFileChanges parsed st;
             ls = calculateLineStats parsed
         in case categorizeFiles cfg (allFiles fileChanges) of
              Inl e \<Rightarrow> Inl e
            | Inr cats \<Rightarrow>
                Inr \<lparr>hasChanges = True,
                     message = None,
                     isFirstCommit = None,
                     mode = Some md,
                     analysisScope = scope,
                     details = Some
                       \<lparr>changeTypes = fc_changeTypes fileChanges,
                        files = allFiles fileChanges,
                        categorization = cats,
                        diff = diffOutput,
                        lineStats = ls,
                        parsedDiff = parsed,
                        summary = \<lparr>totalFiles = length (allFiles fileChanges),
                                   modified_count = length (modified (fc_changeTypes fileChanges)),
                                   created_count = length (created (fc_changeTypes fileChanges)),
                                   deleted_count = length (deleted (fc_changeTypes fileChanges)),
                                   renamed_count = length (renamed (fc_changeTypes fileChanges)),
                                   linesAdded = additions ls,
                                   linesDeleted = deletions ls,
                                   linesChanged = total_lines ls\<rparr>\<rparr>\<rparr>))"

definition not_a_repository :: string where
  "not_a_repository =
     ''Not a git repository. Please run this command inside a git repository.''"

definition analyzeChanges_try ::
  "git \<Rightarrow> (string \<Rightarrow> diff_file list) \<Rightarrow> string \<Rightarrow> world \<Rightarrow> (error + analysis) \<times> world"
where
  \<comment> \<open>The \<^verbatim>\<open>try\<close> block of \<^verbatim>\<open>analyzeChanges\<close>; \<open>md\<close> is \<^verbatim>\<open>options.mode\<close> after its
      default \<^verbatim>\<open>'all'\<close>, \<open>parseDiff\<close> the diff parsing library.\<close>
  "analyzeChanges_try g parseDiff md w =
     (case checkIsRepo g of
        Inl m \<Rightarrow> (Inl (Error m), sent [CheckIsRepo] w)
      | Inr isRepo \<Rightarrow>
          if \<not> isRepo then (Inl (Error not_a_repository), sent [CheckIsRepo] w)
          else
            (let hasHead = checkHasHead g;
                 w' = sent [CheckIsRepo, RevParseHead, StatusPorcelain] w
             in case statusPorcelain g of
                  Inl m \<Rightarrow> (Inl (Error m), w')
                | Inr statusOutput \<Rightarrow>
                    (case parsePorcelainStatus statusOutput of
                       Inl e \<Rightarrow> (Inl e, w')
                     | Inr st \<Rightarrow>
                         if \<not> hasHead then analyzeFirstCommit g parseDiff st w'
                         else
                           (case getDiff g md w' of
                              (Inl e, w'') \<Rightarrow> (Inl e, w'')
                            | (Inr (diffOutput, scope), w'') \<Rightarrow>
                                (analyzeDiff (CONFIG w'') parseDiff md statusOutput st
                                   diffOutput scope,
                                 w'')))))"

definition analyzeChanges ::
  "git \<Rightarrow> (string \<Rightarrow> diff_file list) \<Rightarrow> string \<Rightarrow> world \<Rightarrow> (error + analysis) \<times> world"
where
  \<comment> \<open>\<^verbatim>\<open>analyzeChanges(repoPath, { mode })\<close>, \<open>g\<close> being the tool at \<^verbatim>\<open>repoPath\<close>. The
      client is constructed before the \<^verbatim>\<open>try\<close> block: what the construction throws
      reaches the caller as it is, with no query sent. The \<^verbatim>\<open>catch\<close> wraps whatever
      the \<^verbatim>\<open>try\<close> block threw.\<close>
  "analyzeChanges g parseDiff md w =
     (case simpleGit g of
        Inl m \<Rightarrow> (Inl (Error m), w)
      | Inr client \<Rightarrow>
          (case analyzeChanges_try g parseDiff md w of
             (Inl e, w') \<Rightarrow>
               (Inl (Error (''Failed to analyze git changes: '' @ error_message e)), w')
           | (Inr result, w') \<Rightarrow> (Inr result, w')))"

section \<open>The type inferencer (\<^verbatim>\<open>determinePrimaryType\<close>)\<close>

definition determinePrimaryType :: "categories \<Rightarrow> changeTypes \<Rightarrow> string" where
  "determinePrimaryType cats ct =
     (if length (docs cats) > 0 \<and> length (source cats) = 0 \<and> length (test cats) = 0
      then ''docs''
      else if length (test cats) > 0 \<and> length (source cats) = 0 then ''test''
      else if length (config cats) > 0 \<and> length (source cats) = 0
              \<and> length (test cats) = 0 \<and> length (docs cats) = 0
      then ''chore''
      else if length (style cats) > 0 \<and> length (source cats) = 0 then ''style''
      else if length (created ct) > 0 \<and> length (modified ct) = 0 then ''feat''
      else
        (let all_names = toLowerCase (join '' '' (source cats @ test cats)) in
         if str_includes all_names ''fix'' \<or> str_includes all_names ''bug''
            \<or> str_includes all_names ''patch''
         then ''fix''
         else if str_includes all_names ''refactor'' then ''refactor''
         else if length (source cats) > 0 then
           (if length (created ct) > length (modified ct) then ''feat'' else ''feat'')
         else ''chore''))"

section \<open>The message synthesizer (\<^verbatim>\<open>suggester.js\<close>)\<close>

definition baseName :: "string \<Rightarrow> string" where
  \<comment> \<open>\<^verbatim>\<open>f.split('/').pop()\<close>\<close>
  "baseName f = last (str_split ''/'' f)"

definition stem :: "string \<Rightarrow> string" where
  \<comment> \<open>\<^verbatim>\<open>name.split('.')[0]\<close>\<close>
  "stem name = hd (str_split ''.'' name)"

fun commonParts :: "string list list \<Rightarrow> nat \<Rightarrow> string list \<Rightarrow> string list" where
  \<comment> \<open>The \<^verbatim>\<open>for\<close> loop of \<^verbatim>\<open>findCommonPath\<close> from index \<open>i\<close> on, over the parts of
      the first path that are left; \<^verbatim>\<open>p[i]\<close> beyond the end of \<open>p\<close> is \<^verbatim>\<open>undefined\<close>
      and equals no part.\<close>
  "commonParts paths i [] = []"
| "commonParts paths i (part # rest) =
     (if list_all (\<lambda>p. i < length p \<and> p ! i = part) paths
      then part # commonParts paths (i + 1) rest
      else [])"

definition findCommonPath :: "jspath list \<Rightarrow> error + string option" where
  \<comment> \<open>\<open>Inr None\<close> is \<^verbatim>\<open>null\<close>; \<^verbatim>\<open>f.split('/')\<close> throws on \<^verbatim>\<open>undefined\<close>.\<close>
  "findCommonPath fs =
     (if length fs = 0 then Inr None
      else if length fs = 1 then
        (case fs ! 0 of
           None \<Rightarrow> Inl (TypeError ''split'')
         | Some f \<Rightarrow>
             (let joined = join ''/'' (butlast (str_split ''/'' f))
              in Inr (Some (if joined = [] then ''.'' else joined))))
      else
        (case those fs of
           None \<Rightarrow> Inl (TypeError ''split'')
         | Some names \<Rightarrow>
             (let paths = map (str_split ''/'') names;
                  common = commonParts paths 0 (butlast (hd paths))
              in Inr (if length common > 0 then Some (join ''/'' common) else None))))"

definition determineScope :: "jspath list \<Rightarrow> categories \<Rightarrow> error + string option" where
  "determineScope fs cats =
     (if length fs = 1 then
        (case fs ! 0 of
           None \<Rightarrow> Inl (TypeError ''split'')
         | Some f \<Rightarrow> Inr (Some (toLowerCase (stem (baseName f)))))
      else
        (case findCommonPath fs of
           Inl e \<Rightarrow> Inl e
         | Inr commonPath \<Rightarrow>
             (let parts = (case commonPath of
                             None \<Rightarrow> []
                           | Some cp \<Rightarrow>
                               if cp \<noteq> [] \<and> cp \<noteq> ''.''
                               then filter (\<lambda>p. p \<noteq> []) (str_split ''/'' cp) else [])
              in Inr (if length parts > 0 then Some (last parts)
                      else if length (docs cats) = length fs then Some ''docs''
                      else if length (test cats) = length fs then Some ''tests''
                      else if length (config cats) = length fs then Some ''config''
                      else None))))"

definition camelSpaces :: "string \<Rightarrow> string" where
  \<comment> \<open>\<^verbatim>\<open>name.replace(/([A-Z])/g, ' $1')\<close>\<close>
  "camelSpaces name = concat (map (\<lambda>c. if isUpper c then [CHR '' '', c] else [c]) name)"

definition isSeparator :: "char \<Rightarrow> bool" where
  \<comment> \<open>The class \<^verbatim>\<open>[-_\s]\<close>.\<close>
  "isSeparator c = (c = CHR ''-'' \<or> c = CHR ''_'' \<or> isWhiteSpace c)"

fun splitSeparators :: "string \<Rightarrow> string list" where
  \<comment> \<open>\<^verbatim>\<open>s.split(/[-_\s]+/)\<close>: a run of separators is one cut.\<close>
  "splitSeparators [] = [[]]"
| "splitSeparators (c # cs) =
     (if isSeparator c then
        (if cs \<noteq> [] \<and> isSeparator (hd cs) then splitSeparators cs
         else [] # splitSeparators cs)
      else (case splitSeparators cs of
              [] \<Rightarrow> [[c]]
            | piece # pieces \<Rightarrow> (c # piece) # pieces))"

definition words_of :: "string \<Rightarrow> string list" where
  "words_of name =
     map toLowerCase (filter (\<lambda>w. length w > 2) (splitSeparators (camelSpaces name)))"

text \<open>
  \<^verbatim>\<open>wordCount\<close> is an object used as a dictionary: here the list of its own properties
  in the order they were created. A count is \<open>Some n\<close>, or \<open>None\<close> for the word
  \<^verbatim>\<open>constructor\<close>: there \<^verbatim>\<open>wordCount[word]\<close> first reads the function inherited from
  \<^verbatim>\<open>Object.prototype\<close>, and \<^verbatim>\<open>+ 1\<close> makes a string of it that no comparison with a
  number accepts. No other inherited property name is a lower-case word.
\<close>

fun bump :: "(string \<times> nat option) list \<Rightarrow> string \<Rightarrow> (string \<times> nat option) list" where
  \<comment> \<open>\<^verbatim>\<open>wordCount[word] = (wordCount[word] || 0) + 1\<close>\<close>
  "bump [] word = [(word, if word = ''constructor'' then None else Some 1)]"
| "bump ((w, c) # rest) word =
     (if w = word then (w, map_option (\<lambda>n. n + 1) c) # rest
      else (w, c) # bump rest word)"

definition isDigit :: "char \<Rightarrow> bool" where
  "isDigit c = (48 \<le> (of_char c :: nat) \<and> (of_char c :: nat) \<le> 57)"

definition indexValue :: "string \<Rightarrow> nat" where
  "indexValue w = foldl (\<lambda>n c. 10 * n + ((of_char c :: nat) - 48)) 0 w"

definition isArrayIndex :: "string \<Rightarrow> bool" where
  \<comment> \<open>A property name that is a canonical array index: the engine lists these first,
      in ascending order.\<close>
  "isArrayIndex w =
     (w \<noteq> [] \<and> list_all isDigit w \<and> (w = ''0'' \<or> hd w \<noteq> CHR ''0'')
      \<and> indexValue w < 4294967295)"

definition entries :: "(string \<times> nat option) list \<Rightarrow> (string \<times> nat option) list" where
  \<comment> \<open>\<^verbatim>\<open>Object.entries(wordCount)\<close>\<close>
  "entries wc =
     sort_key (\<lambda>(w, c). indexValue w) (filter (\<lambda>(w, c). isArrayIndex w) wc)
     @ filter (\<lambda>(w, c). \<not> isArrayIndex w) wc"

fun pick_word :: "nat \<times> string option \<Rightarrow> string \<times> nat option \<Rightarrow> nat \<times> string option" where
  \<comment> \<open>The body of the last loop, on the pair (maxCount, commonWord).\<close>
  "pick_word (maxCount, commonWord) (word, None) = (maxCount, commonWord)"
| "pick_word (maxCount, commonWord) (word, Some count) =
     (if count > maxCount \<and> count > 1 then (count, Some word) else (maxCount, commonWord))"

definition inferFeatureFromFiles :: "jspath list \<Rightarrow> error + string option" where
  "inferFeatureFromFiles fs =
     (if length fs = 0 then Inr None
      else
        (case those fs of
           None \<Rightarrow> Inl (TypeError ''split'')
         | Some names \<Rightarrow>
             (let fileNames = map (\<lambda>f. stem (baseName f)) names;
                  wordList = concat (map words_of fileNames);
                  wordCount = foldl bump [] wordList
              in Inr (snd (foldl pick_word (0, None) (entries wordCount))))))"

definition describeSource :: "changeTypes \<Rightarrow> nat \<Rightarrow> error + string" where
  \<comment> \<open>\<^verbatim>\<open>generateDescription\<close> from the test \<^verbatim>\<open>categorization.source.length > 0\<close>, taken,
      to the end; \<open>n\<close> is \<^verbatim>\<open>files.length\<close>.\<close>
  "describeSource ct n =
     (let mixed = (if n \<le> 3 then ''update project files'' else ''update multiple components'')
      in
      if length (created ct) > length (modified ct) then
        (case inferFeatureFromFiles (created ct) of
           Inl e \<Rightarrow> Inl e
         | Inr mainFeature \<Rightarrow>
             Inr (case mainFeature of
                    None \<Rightarrow> ''add new features''
                  | Some w \<Rightarrow> if w = [] then ''add new features'' else ''add '' @ w))
      else if length (modified ct) > 0 then
        (case inferFeatureFromFiles (modified ct) of
           Inl e \<Rightarrow> Inl e
         | Inr mainFeature \<Rightarrow>
             Inr (case mainFeature of
                    None \<Rightarrow> ''update implementation''
                  | Some w \<Rightarrow> if w = [] then ''update implementation'' else ''update '' @ w))
      else if length (deleted ct) > 0 then Inr ''remove deprecated code''
      else Inr mixed)"

definition describeMany :: "categories \<Rightarrow> changeTypes \<Rightarrow> nat \<Rightarrow> error + string" where
  \<comment> \<open>\<^verbatim>\<open>generateDescription\<close> after the single-file case.\<close>
  "describeMany cats ct n =
     (if length (docs cats) > 0 \<and> length (source cats) = 0 \<and> length (test cats) = 0
      then Inr ''update documentation''
      else if length (test cats) > 0 \<and> length (source cats) = 0 then
        (if length (created ct) > 0 then Inr ''add tests'' else Inr ''update tests'')
      else if length (config cats) > 0 \<and> length (source cats) = 0 \<and> length (test cats) = 0
      then Inr ''update configuration''
      else if length (style cats) > 0 \<and> length (source cats) = 0 then Inr ''update styles''
      else if length (source cats) > 0 then describeSource ct n
      else if n \<le> 3 then Inr ''update project files''
      else Inr ''update multiple components'')"

definition generateDescription :: "categories \<Rightarrow> changeTypes \<Rightarrow> jspath list \<Rightarrow> error + string" where
  "generateDescription cats ct fs =
     (if length fs = 1 then
        (case fs ! 0 of
           None \<Rightarrow> Inl (TypeError ''split'')
         | Some f \<Rightarrow>
             (let fileName = baseName f in
              if Some f \<in> set (created ct) then Inr (''add '' @ fileName)
              else if Some f \<in> set (deleted ct) then Inr (''remove '' @ fileName)
              else if Some f \<in> set (modified ct) then Inr (''update '' @ fileName)
              else describeMany cats ct (length fs)))
      else describeMany cats ct (length fs))"

definition generateCommitMessage :: "analysis \<Rightarrow> error + string option" where
  \<comment> \<open>\<open>Inr None\<close> is \<^verbatim>\<open>null\<close>. On an object with \<^verbatim>\<open>hasChanges\<close> and without
      \<^verbatim>\<open>categorization\<close>, \<^verbatim>\<open>determinePrimaryType\<close> throws on \<^verbatim>\<open>categorization.docs\<close>.\<close>
  "generateCommitMessage a =
     (if \<not> hasChanges a then Inr None
      else
        (case details a of
           None \<Rightarrow> Inl (TypeError ''docs'')
         | Some d \<Rightarrow>
             (let commitType = determinePrimaryType (categorization d) (changeTypes d) in
              case determineScope (files d) (categorization d) of
                Inl e \<Rightarrow> Inl e
              | Inr scope \<Rightarrow>
                  (case generateDescription (categorization d) (changeTypes d) (files d) of
                     Inl e \<Rightarrow> Inl e
                   | Inr description \<Rightarrow>
                       Inr (Some (commitType
                                  @ (case scope of
                                       None \<Rightarrow> []
                                     | Some sc \<Rightarrow> if sc = [] then [] else ''('' @ sc @ '')'')
                                  @ '': '' @ description))))))"

section \<open>Auxiliary definitions for the statements\<close>

text \<open>
  The diff parsing library is a parameter of the model. For a run on concrete texts,
  \<open>parser_from table\<close> is the parser that returns the records the table lists for a
  diff text and no record for any other text (the blank texts of a clean tree among them).
\<close>

definition parser_from :: "(string \<times> diff_file list) list \<Rightarrow> string \<Rightarrow> diff_file list" where
  "parser_from table d = (case map_of table d of None \<Rightarrow> [] | Some parsed \<Rightarrow> parsed)"

definition text_of :: "string list \<Rightarrow> string" where
  \<comment> \<open>The text made of the given lines, each ended by a line feed.\<close>
  "text_of ls = concat (map (\<lambda>l. l @ [CHR 0x0A]) ls)"

text \<open>
  A path that is not under version control: the directory does not exist, so that the
  construction of the client throws, or it exists and the repository check answers no.
\<close>

definition not_under_version_control :: "git \<Rightarrow> bool" where
  "not_under_version_control g =
     (case simpleGit g of Inl m \<Rightarrow> True | Inr client \<Rightarrow> checkIsRepo g = Inr False)"

text \<open>The bucket the categorizer's tests select for one path, and the number of
  buckets of a categorization that hold a path.\<close>

datatype bucket = Docs | Test | Config | Style | Source

definition bucket_of :: "configuration \<Rightarrow> string \<Rightarrow> bucket" where
  "bucket_of cfg p =
     (let fileLower = toLowerCase p in
      if matches (p_docs (filePatterns cfg)) fileLower then Docs
      else if matches (p_test (filePatterns cfg)) fileLower then Test
      else if matches (p_config (filePatterns cfg)) fileLower then Config
      else if matches (p_style (filePatterns cfg)) fileLower then Style
      else Source)"

definition bucket_count :: "categories \<Rightarrow> string \<Rightarrow> nat" where
  "bucket_count cats p =
     length (filter (\<lambda>b. p \<in> set b)
               [docs cats, test cats, config cats, style cats, source cats])"

text \<open>Invariants of the aggregator: every path of the per-kind lists built from the diff
  and the status is in \<open>allFiles\<close>; in a returned result all of them are strings.\<close>

definition paths_known :: "file_changes \<Rightarrow> bool" where
  "paths_known fc =
     (set (modified (fc_changeTypes fc)) \<subseteq> set (allFiles fc)
      \<and> set (created (fc_changeTypes fc)) \<subseteq> set (allFiles fc)
      \<and> set (deleted (fc_changeTypes fc)) \<subseteq> set (allFiles fc))"

definition well_formed :: "details \<Rightarrow> bool" where
  "well_formed d =
     (\<exists>names ms cs.
        files d = map Some names \<and> modified (changeTypes d) = map Some ms
        \<and> created (changeTypes d) = map Some cs)"

subsection \<open>Concrete repositories\<close>

definition initial_world :: world where
  \<comment> \<open>The module just loaded, no query sent.\<close>
  "initial_world = \<lparr>CONFIG = CONFIG_literal, queries = []\<rparr>"

definition no_directory :: string where
  "no_directory = ''Cannot use simple-git on a directory that does not exist''"

definition missing_directory :: git where
  \<comment> \<open>A path where there is no directory.\<close>
  "missing_directory =
     \<lparr>simpleGit = Inl no_directory, checkIsRepo = Inl no_directory,
      revParseHead = Inl no_directory, statusPorcelain = Inl no_directory,
      diffCachedHead = Inl no_directory, diffHead = Inl no_directory,
      diffWorkingTree = Inl no_directory\<rparr>"

definition head_id :: string where
  "head_id = ''9fceb02d0ae598e95dc970b74767f19372d61af8''"

definition no_repository :: string where
  "no_repository = ''fatal: not a git repository (or any of the parent directories): .git''"

definition no_head :: string where
  "no_head = ''fatal: ambiguous argument HEAD: unknown revision or path not in the working tree.''"

definition outside_repo :: git where
  \<comment> \<open>A directory that exists and is not under version control.\<close>
  "outside_repo =
     \<lparr>simpleGit = Inr (), checkIsRepo = Inr False, revParseHead = Inl no_repository,
      statusPorcelain = Inl no_repository, diffCachedHead = Inl no_repository,
      diffHead = Inl no_repository, diffWorkingTree = Inl no_repository\<rparr>"

definition clean_repo :: git where
  \<comment> \<open>A repository with a commit and a clean working tree.\<close>
  "clean_repo =
     \<lparr>simpleGit = Inr (), checkIsRepo = Inr True, revParseHead = Inr (text_of [head_id]),
      statusPorcelain = Inr [], diffCachedHead = Inr [], diffHead = Inr [],
      diffWorkingTree = Inr []\<rparr>"

definition app_diff :: string where
  \<comment> \<open>The diff of one line added to \<^verbatim>\<open>src/app.js\<close>.\<close>
  "app_diff =
     text_of [''diff --git a/src/app.js b/src/app.js'',
              ''index 5d3a1f2..8c4b7e9 100644'',
              ''--- a/src/app.js'',
              ''+++ b/src/app.js'',
              ''@@ -1 +1,2 @@'',
              '' const a = 1;'',
              ''+const b = 2;'']"

definition app_record :: diff_file where
  \<comment> \<open>The record of the library for \<open>app_diff\<close>.\<close>
  "app_record =
     \<lparr>f_chunks = Some [\<lparr>changes = [Normal '' const a = 1;'', Add ''+const b = 2;'']\<rparr>],
      f_additions = Some 1, f_deletions = Some 0,
      f_from = Some ''src/app.js'', f_to = Some ''src/app.js'',
      f_new = False, f_deleted = False, f_renamed = False\<rparr>"

definition unstaged_repo :: git where
  \<comment> \<open>A repository with a commit where \<^verbatim>\<open>src/app.js\<close> is modified and not staged.\<close>
  "unstaged_repo =
     \<lparr>simpleGit = Inr (), checkIsRepo = Inr True, revParseHead = Inr (text_of [head_id]),
      statusPorcelain = Inr (text_of ['' M src/app.js'']),
      diffCachedHead = Inr [], diffHead = Inr app_diff, diffWorkingTree = Inr app_diff\<rparr>"

definition staged_repo :: git where
  \<comment> \<open>A repository with a commit where the change of \<^verbatim>\<open>src/app.js\<close> is staged:
      the diff of the index and the diff of the working tree against the commit
      both show it.\<close>
  "staged_repo =
     \<lparr>simpleGit = Inr (), checkIsRepo = Inr True, revParseHead = Inr (text_of [head_id]),
      statusPorcelain = Inr (text_of [''M  src/app.js'']),
      diffCachedHead = Inr app_diff, diffHead = Inr app_diff, diffWorkingTree = Inr []\<rparr>"

definition fresh_repo :: git where
  \<comment> \<open>A repository without a commit: one file staged, one deleted, one untracked.\<close>
  "fresh_repo =
     \<lparr>simpleGit = Inr (), checkIsRepo = Inr True, revParseHead = Inl no_head,
      statusPorcelain = Inr (text_of [''AM README.md'', ''AD notes.txt'', ''?? src/app.js'']),
      diffCachedHead = Inl no_head, diffHead = Inl no_head, diffWorkingTree = Inr []\<rparr>"

definition intent_repo :: git where
  \<comment> \<open>A repository without a commit: \<^verbatim>\<open>src/app.js\<close> recorded with \<^verbatim>\<open>git add -N\<close>
      (to be added later, status \<^verbatim>\<open>" A"\<close>), \<^verbatim>\<open>README.md\<close> untracked.\<close>
  "intent_repo =
     \<lparr>simpleGit = Inr (), checkIsRepo = Inr True, revParseHead = Inl no_head,
      statusPorcelain = Inr (text_of ['' A src/app.js'', ''?? README.md'']),
      diffCachedHead = Inl no_head, diffHead = Inl no_head, diffWorkingTree = Inr []\<rparr>"

subsection \<open>The records of the library\<close>

text \<open>
  The lines of the hunks of a record that are tagged as additions and as deletions, and
  the shape of a record as the library, which counts \<^verbatim>\<open>additions\<close> and \<^verbatim>\<open>deletions\<close>
  while it reads the hunks, builds it.
\<close>

fun is_add :: "change \<Rightarrow> bool" where
  "is_add (Add l) = True"
| "is_add (Del l) = False"
| "is_add (Normal l) = False"

fun is_del :: "change \<Rightarrow> bool" where
  "is_del (Add l) = False"
| "is_del (Del l) = True"
| "is_del (Normal l) = False"

definition added_lines :: "diff_file \<Rightarrow> nat" where
  "added_lines f =
     (case f_chunks f of
        None \<Rightarrow> 0
      | Some chs \<Rightarrow> length (filter is_add (concat (map changes chs))))"

definition deleted_lines :: "diff_file \<Rightarrow> nat" where
  "deleted_lines f =
     (case f_chunks f of
        None \<Rightarrow> 0
      | Some chs \<Rightarrow> length (filter is_del (concat (map changes chs))))"

definition library_record :: "diff_file \<Rightarrow> bool" where
  "library_record f =
     (f_chunks f \<noteq> None \<and> f_additions f = Some (added_lines f)
      \<and> f_deletions f = Some (deleted_lines f))"

section \<open>Evaluation\<close>

lemmas str_defs = Let_def trim_def isWhiteSpace_def toLowerCase_def lowerChar_def char_of_def
  text_of_def

lemma sent_sent: "sent qs (sent ps w) = sent (ps @ qs) w"
  by (simp add: sent_def)

lemma CONFIG_sent: "CONFIG (sent qs w) = CONFIG w"
  by (simp add: sent_def)

lemma sent_initial_world: "sent qs initial_world = \<lparr>CONFIG = CONFIG_literal, queries = qs\<rparr>"
  by (simp add: sent_def initial_world_def)

lemmas model_defs = analyzeChanges_def analyzeChanges_try_def checkHasHead_def getDiff_def
  analyzeDiff_def analyzeFirstCommit_def parsePorcelainStatus_def status_line_def empty_status_def
  extractFileChanges_def empty_file_changes_def merge_modified_def merge_created_def
  merge_deleted_def merge_renamed_def diff_step_def set_add_def calculateLineStats_def
  categorizeFiles_def empty_categories_def filePath_of_def count_file_def count_chunk_def
  sent_sent CONFIG_sent

lemmas categorize_defs = categorize_step_def matches_def CONFIG_literal_def initial_world_def

section \<open>Line statistics\<close>

text \<open>
  Claim C2 (the line statistics count each added and each deleted line of the hunks
  once, so that they equal the sum of the per-file counts) fails on the code: the
  file-level counts, commented as a fallback, are added on top of the lines counted in
  the hunks. On the record the repository's documentation shows for the library (one hunk
  with one deleted and two added lines, \<^verbatim>\<open>additions: 2\<close>, \<^verbatim>\<open>deletions: 1\<close>) the
  statistics are 4 additions and 2 deletions.
\<close>

theorem calculateLineStats_counts_twice:
  "calculateLineStats
     [\<lparr>f_chunks = Some [\<lparr>changes = [Del ''-  const oldCode = true;'',
                                      Add ''+  const newCode = true;'',
                                      Add ''+  const moreCode = true;'']\<rparr>],
       f_additions = Some 2, f_deletions = Some 1,
       f_from = Some ''lib/analyzer.js'', f_to = Some ''lib/analyzer.js'',
       f_new = False, f_deleted = False, f_renamed = False\<rparr>]
   = \<lparr>additions = 4, deletions = 2, total_lines = 6\<rparr>"
  by (simp add: calculateLineStats_def count_file_def count_chunk_def)

section \<open>The status parser\<close>

text \<open>
  Claim C6 (a status line of at least four characters that matches no recognized pattern
  puts its path in the modified list) fails on the code: the last branch, commented
  ``treated as modified'', adds the path to \<^verbatim>\<open>status.files\<close> only. On the line of a file
  unmerged on both sides the modified list stays empty.
\<close>

theorem unrecognized_line_not_modified:
  "parsePorcelainStatus (text_of [''UU src/app.js'']) =
     Inr \<lparr>s_modified = [], s_created = [], s_deleted = [], s_renamed = [],
          s_files = [''src/app.js'']\<rparr>"
  by (simp add: parsePorcelainStatus_def status_line_def empty_status_def str_defs)

section \<open>Outside a repository\<close>

text \<open>
  Claim C8, as stated (the not-a-repository error reaches the caller verbatim), is false:
  in a directory that is not a repository, the error surfaced is not the error thrown by
  the check.
\<close>

theorem not_a_repository_verbatim_counterexample:
  "fst (analyzeChanges outside_repo (parser_from []) ''all'' initial_world)
     \<noteq> Inl (Error not_a_repository)"
  by (simp add: analyzeChanges_def analyzeChanges_try_def not_a_repository_def outside_repo_def)

text \<open>
  Claim C8, amended: on every path that is not under version control the call fails
  before any query other than the repository check is sent. When the directory exists,
  the check is the one query sent and the error carries the not-a-repository message
  behind the prefix that the \<^verbatim>\<open>catch\<close> of \<^verbatim>\<open>analyzeChanges\<close> puts before every failure
  of its \<^verbatim>\<open>try\<close> block. When the directory does not exist, the construction of the
  client throws before the \<^verbatim>\<open>try\<close> block: no query is sent and the client's error
  reaches the caller as it was thrown.
\<close>

theorem not_a_repository_fails_first:
  "not_under_version_control g \<Longrightarrow>
   analyzeChanges g parseDiff md w =
     (case simpleGit g of
        Inl m \<Rightarrow> (Inl (Error m), w)
      | Inr client \<Rightarrow>
          (Inl (Error (''Failed to analyze git changes: '' @ not_a_repository)),
           sent [CheckIsRepo] w))"
  by (simp add: not_under_version_control_def analyzeChanges_def analyzeChanges_try_def
      split: sum.splits)

theorem not_a_repository_fails_first_witness:
  "not_under_version_control outside_repo
   \<and> analyzeChanges outside_repo (parser_from []) ''all'' initial_world =
       (Inl (Error (''Failed to analyze git changes: '' @ not_a_repository)),
        \<lparr>CONFIG = CONFIG_literal, queries = [CheckIsRepo]\<rparr>)
   \<and> not_under_version_control missing_directory
   \<and> analyzeChanges missing_directory (parser_from []) ''all'' initial_world =
       (Inl (Error no_directory), initial_world)"
proof -
  have h: "not_under_version_control outside_repo"
    by (simp add: not_under_version_control_def outside_repo_def)
  have h': "not_under_version_control missing_directory"
    by (simp add: not_under_version_control_def missing_directory_def)
  from not_a_repository_fails_first[OF h, of "parser_from []" "''all''" initial_world]
    not_a_repository_fails_first[OF h', of "parser_from []" "''all''" initial_world] h h'
  show ?thesis
    by (simp add: outside_repo_def missing_directory_def sent_initial_world)
qed

section \<open>No changes\<close>

text \<open>
  Claim C7, as stated (the result without changes carries a message specific to the mode),
  is false: on a clean tree the message is the same text in mode \<^verbatim>\<open>staged\<close> and in mode
  \<^verbatim>\<open>unstaged\<close>; only \<^verbatim>\<open>mode\<close> and \<^verbatim>\<open>analysisScope\<close> differ.
\<close>

theorem no_changes_message_counterexample:
  "fst (analyzeChanges clean_repo (parser_from []) ''staged'' initial_world) =
     Inr \<lparr>hasChanges = False,
          message = Some ''No changes detected since the last commit'',
          isFirstCommit = None, mode = Some ''staged'',
          analysisScope = ''staged changes'', details = None\<rparr>
   \<and> fst (analyzeChanges clean_repo (parser_from []) ''unstaged'' initial_world) =
     Inr \<lparr>hasChanges = False,
          message = Some ''No changes detected since the last commit'',
          isFirstCommit = None, mode = Some ''unstaged'',
          analysisScope = ''unstaged changes'', details = None\<rparr>"
  by (simp add: analyzeChanges_def analyzeChanges_try_def checkHasHead_def getDiff_def
      analyzeDiff_def parsePorcelainStatus_def clean_repo_def parser_from_def trim_def)

text \<open>
  Claim C7, amended: in a repository with a HEAD (in a directory that exists, so that the
  client is constructed), when the status listing is blank, the
  diff outputs are empty and the parser finds no record in a blank diff text, the result
  has \<^verbatim>\<open>hasChanges = false\<close>, the fixed message ``No changes detected since the last
  commit'' whatever the mode, the mode itself, and an \<^verbatim>\<open>analysisScope\<close> that names the
  mode (``staged changes'' in mode \<^verbatim>\<open>staged\<close>).
\<close>

theorem no_changes_result:
  assumes "simpleGit g = Inr ()" and "checkIsRepo g = Inr True" and "revParseHead g = Inr h"
    and "statusPorcelain g = Inr statusOutput" and "trim statusOutput = []"
    and "diffCachedHead g = Inr []" and "diffHead g = Inr []"
    and "parseDiff [] = []" and "parseDiff [CHR 0x0A] = []"
  shows "fst (analyzeChanges g parseDiff md w) =
     Inr \<lparr>hasChanges = False,
          message = Some ''No changes detected since the last commit'',
          isFirstCommit = None,
          mode = Some md,
          analysisScope = (if md = ''staged'' then ''staged changes''
                           else if md = ''unstaged'' then ''unstaged changes''
                           else ''all changes since last commit''),
          details = None\<rparr>"
  using assms
  by (simp add: analyzeChanges_def analyzeChanges_try_def checkHasHead_def getDiff_def
      analyzeDiff_def parsePorcelainStatus_def)

theorem no_changes_result_witness:
  "fst (analyzeChanges clean_repo (parser_from []) ''all'' initial_world) =
     Inr \<lparr>hasChanges = False,
          message = Some ''No changes detected since the last commit'',
          isFirstCommit = None, mode = Some ''all'',
          analysisScope = ''all changes since last commit'', details = None\<rparr>"
proof -
  have h: "simpleGit clean_repo = Inr ()"
    "checkIsRepo clean_repo = Inr True" "revParseHead clean_repo = Inr (text_of [head_id])"
    "statusPorcelain clean_repo = Inr []" "trim [] = []"
    "diffCachedHead clean_repo = Inr []" "diffHead clean_repo = Inr []"
    "parser_from [] [] = []" "parser_from [] [CHR 0x0A] = []"
    by (simp_all add: clean_repo_def parser_from_def trim_def)
  from no_changes_result[OF h, of "''all''" initial_world] show ?thesis by simp
qed

section \<open>Mode \<^verbatim>\<open>staged\<close>\<close>

text \<open>
  Claim C1 (in mode \<^verbatim>\<open>staged\<close>, with a HEAD, an empty staged diff and unstaged changes in
  the status listing, the result has \<^verbatim>\<open>hasChanges = false\<close>) fails on the code: the test
  for ``no changes'' also asks for a blank status listing, and the status listing is
  merged into the result whatever the mode. With one unstaged modification and nothing
  staged, the result of mode \<^verbatim>\<open>staged\<close> has \<^verbatim>\<open>hasChanges = true\<close> and lists the unstaged
  file as modified (its path without its first letter, which \<^verbatim>\<open>trim\<close> on the whole
  listing has shifted into the status columns).
\<close>

theorem staged_mode_reports_unstaged_changes:
  assumes "parseDiff [] = []"
  shows "\<exists>d. analyzeChanges
            \<lparr>simpleGit = Inr (), checkIsRepo = Inr True, revParseHead = Inr h,
             statusPorcelain = Inr (text_of ['' M src/app.js'']),
             diffCachedHead = Inr [], diffHead = unstaged, diffWorkingTree = unstaged\<rparr>
            parseDiff ''staged'' w
          = (Inr \<lparr>hasChanges = True, message = None, isFirstCommit = None,
                  mode = Some ''staged'', analysisScope = ''staged changes'',
                  details = Some d\<rparr>,
             sent [CheckIsRepo, RevParseHead, StatusPorcelain, DiffCachedHead] w)
        \<and> files d = [Some ''rc/app.js'']
        \<and> modified (changeTypes d) = [Some ''rc/app.js'']"
  using assms by (simp add: model_defs str_defs)

theorem staged_mode_reports_unstaged_changes_witness:
  "parser_from [(app_diff, [app_record])] [] = []
   \<and> (\<exists>d. analyzeChanges unstaged_repo (parser_from [(app_diff, [app_record])]) ''staged''
            initial_world
          = (Inr \<lparr>hasChanges = True, message = None, isFirstCommit = None,
                  mode = Some ''staged'', analysisScope = ''staged changes'',
                  details = Some d\<rparr>,
             \<lparr>CONFIG = CONFIG_literal,
              queries = [CheckIsRepo, RevParseHead, StatusPorcelain, DiffCachedHead]\<rparr>)
        \<and> files d = [Some ''rc/app.js'']
        \<and> modified (changeTypes d) = [Some ''rc/app.js''])"
proof -
  have h: "parser_from [(app_diff, [app_record])] [] = []"
    by (simp add: parser_from_def app_diff_def text_of_def)
  from staged_mode_reports_unstaged_changes[
      where parseDiff = "parser_from [(app_diff, [app_record])]"
        and h = "text_of [head_id]" and unstaged = "Inr app_diff" and w = initial_world, OF h] h
  show ?thesis by (simp add: unstaged_repo_def sent_initial_world)
qed

section \<open>First commit\<close>

lemma categorize_loop_total:
  "\<exists>cats'. categorize_loop cfg cats (map Some names) = Inr cats'"
  by (induction names arbitrary: cats) simp_all

lemma categorizeFiles_total: "\<exists>cats. categorizeFiles cfg (map Some names) = Inr cats"
  by (simp add: categorizeFiles_def categorize_loop_total)

text \<open>
  What the code does without a HEAD: when the status and the working-tree diff queries
  succeed and the status parser reads at least one path, the paths it reads are the
  files and the created list of the result, whatever their status characters, and the
  other lists are empty.
\<close>

lemma first_commit_parsed_paths_created:
  assumes "simpleGit g = Inr ()" and "checkIsRepo g = Inr True"
      and "revParseHead g = Inl m"
      and "statusPorcelain g = Inr statusOutput"
      and "parsePorcelainStatus statusOutput = Inr st"
      and "s_files st \<noteq> []"
      and "diffWorkingTree g = Inr diffOutput"
  shows "\<exists>r d. analyzeChanges g parseDiff md w =
                  (Inr r, sent [CheckIsRepo, RevParseHead, StatusPorcelain, DiffWorkingTree] w)
           \<and> hasChanges r
           \<and> isFirstCommit r = Some True \<and> details r = Some d
           \<and> files d = map Some (s_files st)
           \<and> created (changeTypes d) = map Some (s_files st)
           \<and> modified (changeTypes d) = [] \<and> deleted (changeTypes d) = []
           \<and> renamed (changeTypes d) = []"
proof -
  obtain cats where "categorizeFiles (CONFIG w) (map Some (s_files st)) = Inr cats"
    using categorizeFiles_total by blast
  with assms show ?thesis
    by (simp add: analyzeChanges_def analyzeChanges_try_def checkHasHead_def
        analyzeFirstCommit_def Let_def sent_sent CONFIG_sent)
qed

text \<open>
  Claim C4 (without a HEAD and with a non-empty status listing, the result has
  \<^verbatim>\<open>isFirstCommit = true\<close> and every path of the status listing is classified created)
  fails on the code: the parser trims the whole listing before it cuts the lines, so a
  first line that starts with a blank status column loses it and is read one column to
  the left. With \<^verbatim>\<open>src/app.js\<close> recorded by \<^verbatim>\<open>git add -N\<close> (line \<^verbatim>\<open>" A src/app.js"\<close>) and
  \<^verbatim>\<open>README.md\<close> untracked, the result has \<^verbatim>\<open>isFirstCommit = true\<close> and classifies as
  created the path \<^verbatim>\<open>rc/app.js\<close>, which is not in the listing, and not \<^verbatim>\<open>src/app.js\<close>,
  which is.
\<close>

theorem first_commit_path_misread:
  "\<exists>r d. analyzeChanges
            \<lparr>simpleGit = Inr (), checkIsRepo = Inr True, revParseHead = Inl m,
             statusPorcelain = Inr (text_of ['' A src/app.js'', ''?? README.md'']),
             diffCachedHead = c, diffHead = h, diffWorkingTree = Inr diffOutput\<rparr>
            parseDiff md w
          = (Inr r, sent [CheckIsRepo, RevParseHead, StatusPorcelain, DiffWorkingTree] w)
      \<and> hasChanges r \<and> isFirstCommit r = Some True \<and> details r = Some d
      \<and> files d = [Some ''rc/app.js'', Some ''README.md'']
      \<and> created (changeTypes d) = [Some ''rc/app.js'', Some ''README.md'']
      \<and> Some ''src/app.js'' \<notin> set (created (changeTypes d))"
proof -
  let ?g = "\<lparr>simpleGit = Inr (), checkIsRepo = Inr True, revParseHead = Inl m,
             statusPorcelain = Inr (text_of ['' A src/app.js'', ''?? README.md'']),
             diffCachedHead = c, diffHead = h, diffWorkingTree = Inr diffOutput\<rparr>"
  let ?st = "\<lparr>s_modified = [], s_created = [''rc/app.js'', ''README.md''],
              s_deleted = [], s_renamed = [], s_files = [''rc/app.js'', ''README.md'']\<rparr>"
  have p: "parsePorcelainStatus (text_of ['' A src/app.js'', ''?? README.md'']) = Inr ?st"
    by (simp add: parsePorcelainStatus_def status_line_def empty_status_def str_defs)
  have "\<exists>r d. analyzeChanges ?g parseDiff md w =
                  (Inr r, sent [CheckIsRepo, RevParseHead, StatusPorcelain, DiffWorkingTree] w)
           \<and> hasChanges r
           \<and> isFirstCommit r = Some True \<and> details r = Some d
           \<and> files d = map Some (s_files ?st)
           \<and> created (changeTypes d) = map Some (s_files ?st)
           \<and> modified (changeTypes d) = [] \<and> deleted (changeTypes d) = []
           \<and> renamed (changeTypes d) = []"
    by (rule first_commit_parsed_paths_created[where g = ?g and st = ?st, OF _ _ _ _ p])
       simp_all
  then obtain r d where
    "analyzeChanges ?g parseDiff md w =
       (Inr r, sent [CheckIsRepo, RevParseHead, StatusPorcelain, DiffWorkingTree] w)"
    "hasChanges r" "isFirstCommit r = Some True" "details r = Some d"
    "files d = [Some ''rc/app.js'', Some ''README.md'']"
    "created (changeTypes d) = [Some ''rc/app.js'', Some ''README.md'']"
    by auto
  then show ?thesis by auto
qed

text \<open>
  A listing of one short line: the trimmed line has three characters, the loop skips it,
  and the result has no changes at all.
\<close>

lemma first_commit_short_line_dropped:
  "analyzeChanges
     \<lparr>simpleGit = Inr (), checkIsRepo = Inr True, revParseHead = Inl m,
      statusPorcelain = Inr (text_of ['' A a'']),
      diffCachedHead = c, diffHead = h, diffWorkingTree = d\<rparr>
     parseDiff md w
   = (Inr \<lparr>hasChanges = False, message = Some ''No changes detected in the repository'',
           isFirstCommit = Some True, mode = None,
           analysisScope = ''first commit (no HEAD)'', details = None\<rparr>,
      sent [CheckIsRepo, RevParseHead, StatusPorcelain] w)"
  by (simp add: model_defs str_defs)

section \<open>The categorization is a partition of the files\<close>

lemma categorize_loop_buckets:
  "categorize_loop cfg cats fs = Inr cats' \<Longrightarrow>
   \<exists>names. fs = map Some names
     \<and> docs cats' = docs cats @ filter (\<lambda>p. bucket_of cfg p = Docs) names
     \<and> test cats' = test cats @ filter (\<lambda>p. bucket_of cfg p = Test) names
     \<and> config cats' = config cats @ filter (\<lambda>p. bucket_of cfg p = Config) names
     \<and> style cats' = style cats @ filter (\<lambda>p. bucket_of cfg p = Style) names
     \<and> source cats' = source cats @ filter (\<lambda>p. bucket_of cfg p = Source) names"
proof (induction cfg cats fs rule: categorize_loop.induct)
  case (1 cfg cats)
  then show ?case by simp
next
  case (2 cfg cats fs)
  then show ?case by simp
next
  case (3 cfg cats f fs)
  from 3 obtain names where n: "fs = map Some names"
     "docs cats' = docs (categorize_step cfg cats f) @ filter (\<lambda>p. bucket_of cfg p = Docs) names"
     "test cats' = test (categorize_step cfg cats f) @ filter (\<lambda>p. bucket_of cfg p = Test) names"
     "config cats' = config (categorize_step cfg cats f) @ filter (\<lambda>p. bucket_of cfg p = Config) names"
     "style cats' = style (categorize_step cfg cats f) @ filter (\<lambda>p. bucket_of cfg p = Style) names"
     "source cats' = source (categorize_step cfg cats f) @ filter (\<lambda>p. bucket_of cfg p = Source) names"
    by auto
  have "Some f # fs = map Some (f # names)" using n(1) by simp
  moreover have "docs cats' = docs cats @ filter (\<lambda>p. bucket_of cfg p = Docs) (f # names)"
    using n(2) by (simp add: categorize_step_def bucket_of_def Let_def)
  moreover have "test cats' = test cats @ filter (\<lambda>p. bucket_of cfg p = Test) (f # names)"
    using n(3) by (simp add: categorize_step_def bucket_of_def Let_def)
  moreover have "config cats' = config cats @ filter (\<lambda>p. bucket_of cfg p = Config) (f # names)"
    using n(4) by (simp add: categorize_step_def bucket_of_def Let_def)
  moreover have "style cats' = style cats @ filter (\<lambda>p. bucket_of cfg p = Style) (f # names)"
    using n(5) by (simp add: categorize_step_def bucket_of_def Let_def)
  moreover have "source cats' = source cats @ filter (\<lambda>p. bucket_of cfg p = Source) (f # names)"
    using n(6) by (simp add: categorize_step_def bucket_of_def Let_def)
  ultimately have "Some f # fs = map Some (f # names)
     \<and> docs cats' = docs cats @ filter (\<lambda>p. bucket_of cfg p = Docs) (f # names)
     \<and> test cats' = test cats @ filter (\<lambda>p. bucket_of cfg p = Test) (f # names)
     \<and> config cats' = config cats @ filter (\<lambda>p. bucket_of cfg p = Config) (f # names)
     \<and> style cats' = style cats @ filter (\<lambda>p. bucket_of cfg p = Style) (f # names)
     \<and> source cats' = source cats @ filter (\<lambda>p. bucket_of cfg p = Source) (f # names)"
    by blast
  then show ?case by (rule exI[of _ "f # names"])
qed

lemma categorizeFiles_buckets:
  assumes "categorizeFiles cfg fs = Inr cats"
  shows "\<exists>names. fs = map Some names
     \<and> docs cats = filter (\<lambda>p. bucket_of cfg p = Docs) names
     \<and> test cats = filter (\<lambda>p. bucket_of cfg p = Test) names
     \<and> config cats = filter (\<lambda>p. bucket_of cfg p = Config) names
     \<and> style cats = filter (\<lambda>p. bucket_of cfg p = Style) names
     \<and> source cats = filter (\<lambda>p. bucket_of cfg p = Source) names"
  using categorize_loop_buckets[OF assms[unfolded categorizeFiles_def]]
  by (simp add: empty_categories_def)

lemma bucket_count_categorizeFiles:
  assumes "categorizeFiles cfg fs = Inr cats"
  shows "bucket_count cats p = (if Some p \<in> set fs then 1 else 0)"
proof -
  from categorizeFiles_buckets[OF assms] obtain names where n: "fs = map Some names"
     "docs cats = filter (\<lambda>p. bucket_of cfg p = Docs) names"
     "test cats = filter (\<lambda>p. bucket_of cfg p = Test) names"
     "config cats = filter (\<lambda>p. bucket_of cfg p = Config) names"
     "style cats = filter (\<lambda>p. bucket_of cfg p = Style) names"
     "source cats = filter (\<lambda>p. bucket_of cfg p = Source) names"
    by blast
  have "Some p \<in> set fs \<longleftrightarrow> p \<in> set names" using n(1) by auto
  then show ?thesis
    unfolding bucket_count_def n(2-6)
    by (cases "bucket_of cfg p") auto
qed

lemma analyzeChanges_details:
  assumes "fst (analyzeChanges g parseDiff md w) = Inr r" and "hasChanges r"
  shows "\<exists>d cfg. details r = Some d \<and> categorizeFiles cfg (files d) = Inr (categorization d)"
  using assms
  by (auto simp: analyzeChanges_def analyzeChanges_try_def analyzeFirstCommit_def analyzeDiff_def
      Let_def split: sum.splits if_splits prod.splits)

text \<open>
  Claim C5: in every analysis result with \<^verbatim>\<open>hasChanges = true\<close>, each element of \<^verbatim>\<open>files\<close>
  is a path that is in exactly one of the five buckets of the categorization, and a path
  that is not in \<^verbatim>\<open>files\<close> is in no bucket, whatever the pattern table holds.
\<close>

theorem files_in_exactly_one_bucket:
  assumes "fst (analyzeChanges g parseDiff md w) = Inr r" and "hasChanges r"
  shows "\<exists>d. details r = Some d
           \<and> (\<forall>f \<in> set (files d). \<exists>p. f = Some p \<and> bucket_count (categorization d) p = 1)
           \<and> (\<forall>p. Some p \<notin> set (files d) \<longrightarrow> bucket_count (categorization d) p = 0)"
proof -
  from analyzeChanges_details[OF assms] obtain d cfg where
    d: "details r = Some d" "categorizeFiles cfg (files d) = Inr (categorization d)" by blast
  from categorizeFiles_buckets[OF d(2)] obtain names where "files d = map Some names" by blast
  then have "\<forall>f \<in> set (files d). \<exists>p. f = Some p" by auto
  with d show ?thesis
    by (auto simp: bucket_count_categorizeFiles[OF d(2)])
qed

theorem files_in_exactly_one_bucket_witness:
  "\<exists>r d. fst (analyzeChanges fresh_repo (parser_from []) ''all'' initial_world) = Inr r \<and> hasChanges r
      \<and> details r = Some d
      \<and> files d = [Some ''README.md'', Some ''notes.txt'', Some ''src/app.js'']
      \<and> bucket_count (categorization d) ''README.md'' = 1
      \<and> bucket_count (categorization d) ''notes.txt'' = 1
      \<and> bucket_count (categorization d) ''src/app.js'' = 1
      \<and> bucket_count (categorization d) ''package.json'' = 0"
proof -
  have "\<exists>r d. fst (analyzeChanges fresh_repo (parser_from []) ''all'' initial_world) = Inr r \<and> hasChanges r
          \<and> details r = Some d
          \<and> files d = [Some ''README.md'', Some ''notes.txt'', Some ''src/app.js'']"
    by (simp add: fresh_repo_def model_defs str_defs)
  then obtain r d where r: "fst (analyzeChanges fresh_repo (parser_from []) ''all'' initial_world) = Inr r"
    "hasChanges r" "details r = Some d"
    "files d = [Some ''README.md'', Some ''notes.txt'', Some ''src/app.js'']"
    by blast
  from files_in_exactly_one_bucket[OF r(1,2)] r(3,4)
  have "bucket_count (categorization d) ''README.md'' = 1
      \<and> bucket_count (categorization d) ''notes.txt'' = 1
      \<and> bucket_count (categorization d) ''src/app.js'' = 1
      \<and> bucket_count (categorization d) ''package.json'' = 0"
    by simp
  with r show ?thesis by blast
qed

section \<open>Two invocations in sequence\<close>

lemma getDiff_result: "fst (getDiff g md w') = fst (getDiff g md w)"
  by (simp add: getDiff_def split: sum.splits)

lemma getDiff_CONFIG: "CONFIG (snd (getDiff g md w)) = CONFIG w"
  by (simp add: getDiff_def CONFIG_sent split: sum.splits)

lemma analyzeFirstCommit_result:
  "CONFIG w' = CONFIG w \<Longrightarrow>
   fst (analyzeFirstCommit g parseDiff st w') = fst (analyzeFirstCommit g parseDiff st w)"
  by (simp add: analyzeFirstCommit_def Let_def split: sum.splits)

lemma analyzeFirstCommit_CONFIG:
  "CONFIG (snd (analyzeFirstCommit g parseDiff st w)) = CONFIG w"
  by (simp add: analyzeFirstCommit_def Let_def CONFIG_sent split: sum.splits)

lemma analyzeChanges_try_unfold:
  "analyzeChanges_try g parseDiff md w =
     (case checkIsRepo g of
        Inl m \<Rightarrow> (Inl (Error m), sent [CheckIsRepo] w)
      | Inr isRepo \<Rightarrow>
          if \<not> isRepo then (Inl (Error not_a_repository), sent [CheckIsRepo] w)
          else
            (case statusPorcelain g of
               Inl m \<Rightarrow> (Inl (Error m), sent [CheckIsRepo, RevParseHead, StatusPorcelain] w)
             | Inr statusOutput \<Rightarrow>
                 (case parsePorcelainStatus statusOutput of
                    Inl e \<Rightarrow> (Inl e, sent [CheckIsRepo, RevParseHead, StatusPorcelain] w)
                  | Inr st \<Rightarrow>
                      if \<not> checkHasHead g
                      then analyzeFirstCommit g parseDiff st
                             (sent [CheckIsRepo, RevParseHead, StatusPorcelain] w)
                      else
                        (case fst (getDiff g md (sent [CheckIsRepo, RevParseHead, StatusPorcelain] w)) of
                           Inl e \<Rightarrow>
                             (Inl e, snd (getDiff g md (sent [CheckIsRepo, RevParseHead, StatusPorcelain] w)))
                         | Inr ds \<Rightarrow>
                             (analyzeDiff
                                (CONFIG (snd (getDiff g md
                                   (sent [CheckIsRepo, RevParseHead, StatusPorcelain] w))))
                                parseDiff md statusOutput st (fst ds) (snd ds),
                              snd (getDiff g md
                                (sent [CheckIsRepo, RevParseHead, StatusPorcelain] w)))))))"
  by (simp add: analyzeChanges_try_def Let_def split: sum.splits prod.splits)

lemma analyzeChanges_try_result:
  assumes "CONFIG w' = CONFIG w"
  shows "fst (analyzeChanges_try g parseDiff md w') = fst (analyzeChanges_try g parseDiff md w)"
proof -
  let ?qs = "[CheckIsRepo, RevParseHead, StatusPorcelain]"
  have c: "CONFIG (sent ?qs w') = CONFIG (sent ?qs w)"
    using assms by (simp add: CONFIG_sent)
  have fc: "fst (analyzeFirstCommit g parseDiff st (sent ?qs w'))
              = fst (analyzeFirstCommit g parseDiff st (sent ?qs w))" for st
    by (rule analyzeFirstCommit_result[OF c])
  have gd: "fst (getDiff g md (sent ?qs w')) = fst (getDiff g md (sent ?qs w))"
    by (rule getDiff_result)
  have gc: "CONFIG (snd (getDiff g md (sent ?qs w'))) = CONFIG (snd (getDiff g md (sent ?qs w)))"
    using assms by (simp add: getDiff_CONFIG CONFIG_sent)
  show ?thesis
    unfolding analyzeChanges_try_unfold[of g parseDiff md w']
      analyzeChanges_try_unfold[of g parseDiff md w]
    by (simp add: fc gd gc split: sum.splits)
qed

lemma analyzeChanges_try_CONFIG:
  "CONFIG (snd (analyzeChanges_try g parseDiff md w)) = CONFIG w"
  unfolding analyzeChanges_try_unfold
  by (simp add: CONFIG_sent analyzeFirstCommit_CONFIG getDiff_CONFIG split: sum.splits)

lemma analyzeChanges_result:
  assumes "CONFIG w' = CONFIG w"
  shows "fst (analyzeChanges g parseDiff md w') = fst (analyzeChanges g parseDiff md w)"
proof -
  have eq: "fst (analyzeChanges g parseDiff md v) =
          (case simpleGit g of
             Inl m \<Rightarrow> Inl (Error m)
           | Inr client \<Rightarrow>
               (case fst (analyzeChanges_try g parseDiff md v) of
                  Inl e \<Rightarrow> Inl (Error (''Failed to analyze git changes: '' @ error_message e))
                | Inr result \<Rightarrow> Inr result))" for v
    by (simp add: analyzeChanges_def split: sum.splits prod.splits)
  show ?thesis
    unfolding eq analyzeChanges_try_result[OF assms] by (rule refl)
qed

lemma analyzeChanges_CONFIG: "CONFIG (snd (analyzeChanges g parseDiff md w)) = CONFIG w"
proof -
  have "snd (analyzeChanges g parseDiff md w) =
          (case simpleGit g of
             Inl m \<Rightarrow> w
           | Inr client \<Rightarrow> snd (analyzeChanges_try g parseDiff md w))"
    by (simp add: analyzeChanges_def split: sum.splits prod.splits)
  then show ?thesis
    by (simp add: analyzeChanges_try_CONFIG split: sum.splits)
qed

text \<open>
  The result does depend on the shared object: in a world where the pattern table has
  been emptied, the same repository is categorized differently.
\<close>

lemma result_depends_on_CONFIG:
  "fst (analyzeChanges fresh_repo (parser_from []) ''all''
          \<lparr>CONFIG = CONFIG_literal\<lparr>filePatterns :=
                      \<lparr>p_docs = [], p_test = [], p_config = [], p_style = []\<rparr>\<rparr>,
           queries = []\<rparr>)
     \<noteq> fst (analyzeChanges fresh_repo (parser_from []) ''all'' initial_world)"
  by (simp add: fresh_repo_def model_defs str_defs categorize_defs parser_from_def)

text \<open>
  Claim C9: with the mode, the diff parser and the answers of the tool fixed, two
  invocations of the analysis in sequence, the second one starting in the world the first
  one left, return identical results. The first invocation leaves the shared object
  \<^verbatim>\<open>CONFIG\<close>, which the categorizer reads, as it found it, and a result does not depend
  on what was sent to the tool before.
\<close>

theorem analysis_deterministic:
  assumes "analyzeChanges g parseDiff md w = (r1, w1)"
      and "analyzeChanges g parseDiff md w1 = (r2, w2)"
  shows "r2 = r1 \<and> CONFIG w1 = CONFIG w \<and> CONFIG w2 = CONFIG w"
proof -
  have c1: "CONFIG w1 = CONFIG w"
    using analyzeChanges_CONFIG[of g parseDiff md w] assms(1) by simp
  have c2: "CONFIG w2 = CONFIG w1"
    using analyzeChanges_CONFIG[of g parseDiff md w1] assms(2) by simp
  have "fst (analyzeChanges g parseDiff md w1) = fst (analyzeChanges g parseDiff md w)"
    by (rule analyzeChanges_result[OF c1])
  with assms have "r2 = r1" by simp
  with c1 c2 show ?thesis by simp
qed

theorem analysis_deterministic_witness:
  "\<exists>r w2.
     analyzeChanges unstaged_repo (parser_from [(app_diff, [app_record])]) ''unstaged'' initial_world
       = (Inr r, \<lparr>CONFIG = CONFIG_literal,
                  queries = [CheckIsRepo, RevParseHead, StatusPorcelain, DiffHead]\<rparr>)
     \<and> analyzeChanges unstaged_repo (parser_from [(app_diff, [app_record])]) ''unstaged''
         \<lparr>CONFIG = CONFIG_literal,
          queries = [CheckIsRepo, RevParseHead, StatusPorcelain, DiffHead]\<rparr>
       = (Inr r, w2)
     \<and> hasChanges r \<and> CONFIG w2 = CONFIG_literal"
proof -
  let ?P = "parser_from [(app_diff, [app_record])]"
  let ?w1 = "\<lparr>CONFIG = CONFIG_literal,
              queries = [CheckIsRepo, RevParseHead, StatusPorcelain, DiffHead]\<rparr>"
  have "\<exists>r. analyzeChanges unstaged_repo ?P ''unstaged'' initial_world = (Inr r, ?w1)
          \<and> hasChanges r"
    by (simp add: unstaged_repo_def model_defs str_defs parser_from_def app_record_def
        sent_def initial_world_def)
  then obtain r where r: "analyzeChanges unstaged_repo ?P ''unstaged'' initial_world = (Inr r, ?w1)"
    "hasChanges r" by blast
  obtain r2 w2 where r2: "analyzeChanges unstaged_repo ?P ''unstaged'' ?w1 = (r2, w2)"
    by (cases "analyzeChanges unstaged_repo ?P ''unstaged'' ?w1") simp
  from analysis_deterministic[OF r(1) r2] have "r2 = Inr r" "CONFIG w2 = CONFIG_literal"
    by (simp_all add: initial_world_def)
  with r r2 show ?thesis by blast
qed

section \<open>Mode \<^verbatim>\<open>all\<close>: a path in both diffs\<close>

text \<open>
  Claim C3 (in mode \<^verbatim>\<open>all\<close> a path touched in the staged and in the unstaged diff is
  in the result once, also in the per-kind lists) fails on the code: the two diff texts
  are concatenated, the parser gives one record for each, and the loop over the parsed
  diff pushes the path to its per-kind list for every record, where the loops over the
  status ask \<^verbatim>\<open>allFiles.has\<close> first. With \<^verbatim>\<open>src/app.js\<close> staged, the path is once in
  \<^verbatim>\<open>files\<close> and twice in the modified list, and the summary counts one file, two of
  them modified.
\<close>

theorem path_in_both_diffs_listed_twice:
  assumes "parseDiff (stagedDiff @ [CHR 0x0A] @ unstagedDiff) = [app_record, app_record]"
  shows "\<exists>d. fst (analyzeChanges
                 \<lparr>simpleGit = Inr (), checkIsRepo = Inr True, revParseHead = Inr h,
                  statusPorcelain = Inr (text_of [''M  src/app.js'']),
                  diffCachedHead = Inr stagedDiff, diffHead = Inr unstagedDiff,
                  diffWorkingTree = wt\<rparr>
                 parseDiff ''all'' w)
          = Inr \<lparr>hasChanges = True, message = None, isFirstCommit = None,
                 mode = Some ''all'', analysisScope = ''all changes since last commit'',
                 details = Some d\<rparr>
        \<and> files d = [Some ''src/app.js'']
        \<and> modified (changeTypes d) = [Some ''src/app.js'', Some ''src/app.js'']
        \<and> totalFiles (summary d) = 1 \<and> modified_count (summary d) = 2"
  using assms by (simp add: model_defs str_defs app_record_def)

theorem path_in_both_diffs_listed_twice_witness:
  "parser_from [(app_diff @ [CHR 0x0A] @ app_diff, [app_record, app_record])]
     (app_diff @ [CHR 0x0A] @ app_diff) = [app_record, app_record]
   \<and> (\<exists>d. fst (analyzeChanges staged_repo
                  (parser_from [(app_diff @ [CHR 0x0A] @ app_diff, [app_record, app_record])])
                  ''all'' initial_world)
          = Inr \<lparr>hasChanges = True, message = None, isFirstCommit = None,
                 mode = Some ''all'', analysisScope = ''all changes since last commit'',
                 details = Some d\<rparr>
        \<and> files d = [Some ''src/app.js'']
        \<and> modified (changeTypes d) = [Some ''src/app.js'', Some ''src/app.js'']
        \<and> totalFiles (summary d) = 1 \<and> modified_count (summary d) = 2)"
proof -
  have h: "parser_from [(app_diff @ [CHR 0x0A] @ app_diff, [app_record, app_record])]
             (app_diff @ [CHR 0x0A] @ app_diff) = [app_record, app_record]"
    by (simp add: parser_from_def)
  from path_in_both_diffs_listed_twice[
      where parseDiff = "parser_from [(app_diff @ [CHR 0x0A] @ app_diff, [app_record, app_record])]"
        and stagedDiff = app_diff and unstagedDiff = app_diff
        and h = "text_of [head_id]" and wt = "Inr []" and w = initial_world, OF h] h
  show ?thesis by (simp add: staged_repo_def)
qed

section \<open>The paths of a result are strings\<close>

lemma those_map_Some: "those (map Some xs) = Some xs"
  by (induction xs) simp_all

lemma subset_map_Some:
  "set xs \<subseteq> set (map Some names) \<Longrightarrow> \<exists>ys. xs = map Some ys"
proof (induction xs)
  case Nil
  then show ?case by simp
next
  case (Cons x xs)
  then obtain ys where "xs = map Some ys" by auto
  moreover from Cons.prems obtain y where "x = Some y" by auto
  ultimately have "x # xs = map Some (y # ys)" by simp
  then show ?case by (rule exI[of _ "y # ys"])
qed

lemma foldl_preserves:
  "(\<And>s x. P s \<Longrightarrow> P (f s x)) \<Longrightarrow> P s \<Longrightarrow> P (foldl f s xs)"
  by (induction xs arbitrary: s) simp_all

lemma set_set_add: "set (set_add x s) = insert x (set s)"
  by (auto simp: set_add_def)

lemma paths_known_diff_step: "paths_known fc \<Longrightarrow> paths_known (diff_step fc f)"
  by (auto simp: paths_known_def diff_step_def Let_def set_set_add)

lemma paths_known_merge_modified: "paths_known fc \<Longrightarrow> paths_known (merge_modified fc p)"
  by (auto simp: paths_known_def merge_modified_def set_set_add)

lemma paths_known_merge_created: "paths_known fc \<Longrightarrow> paths_known (merge_created fc p)"
  by (auto simp: paths_known_def merge_created_def set_set_add)

lemma paths_known_merge_deleted: "paths_known fc \<Longrightarrow> paths_known (merge_deleted fc p)"
  by (auto simp: paths_known_def merge_deleted_def set_set_add)

lemma paths_known_merge_renamed: "paths_known fc \<Longrightarrow> paths_known (merge_renamed fc rn)"
  by (auto simp: paths_known_def merge_renamed_def set_set_add)

lemma paths_known_extractFileChanges: "paths_known (extractFileChanges parsed st)"
proof -
  have 0: "paths_known empty_file_changes"
    by (simp add: paths_known_def empty_file_changes_def)
  have 1: "paths_known (foldl diff_step empty_file_changes parsed)"
    by (rule foldl_preserves[of paths_known diff_step, OF paths_known_diff_step 0])
  have 2: "paths_known (foldl merge_modified (foldl diff_step empty_file_changes parsed)
                          (s_modified st))"
    by (rule foldl_preserves[of paths_known merge_modified, OF paths_known_merge_modified 1])
  have 3: "paths_known (foldl merge_created
             (foldl merge_modified (foldl diff_step empty_file_changes parsed) (s_modified st))
             (s_created st))"
    by (rule foldl_preserves[of paths_known merge_created, OF paths_known_merge_created 2])
  have 4: "paths_known (foldl merge_deleted (foldl merge_created
             (foldl merge_modified (foldl diff_step empty_file_changes parsed) (s_modified st))
             (s_created st)) (s_deleted st))"
    by (rule foldl_preserves[of paths_known merge_deleted, OF paths_known_merge_deleted 3])
  show ?thesis
    unfolding extractFileChanges_def
    by (rule foldl_preserves[of paths_known merge_renamed, OF paths_known_merge_renamed 4])
qed

lemma categorizeFiles_strings:
  assumes "categorizeFiles cfg fs = Inr cats"
  shows "\<exists>names. fs = map Some names"
  using categorizeFiles_buckets[OF assms] by blast

lemma analyzeDiff_well_formed:
  assumes "analyzeDiff cfg parseDiff md statusOutput st diffOutput scope = Inr r" and "hasChanges r"
  shows "\<exists>d. details r = Some d \<and> well_formed d"
proof -
  let ?fc = "extractFileChanges (parseDiff diffOutput) st"
  show ?thesis
  proof (cases "categorizeFiles cfg (allFiles ?fc)")
    case (Inl e)
    with assms show ?thesis
      by (auto simp: analyzeDiff_def Let_def split: if_splits)
  next
    case (Inr cats)
    with assms obtain d where
      d: "details r = Some d" "files d = allFiles ?fc" "changeTypes d = fc_changeTypes ?fc"
      by (auto simp: analyzeDiff_def Let_def split: if_splits)
    from categorizeFiles_strings[OF Inr] obtain names where n: "allFiles ?fc = map Some names" ..
    have "paths_known ?fc" by (rule paths_known_extractFileChanges)
    then have "set (modified (fc_changeTypes ?fc)) \<subseteq> set (map Some names)"
         "set (created (fc_changeTypes ?fc)) \<subseteq> set (map Some names)"
      unfolding paths_known_def n by simp_all
    then obtain ms cs where "modified (fc_changeTypes ?fc) = map Some ms"
        "created (fc_changeTypes ?fc) = map Some cs"
      using subset_map_Some by blast
    with d n have "well_formed d"
      unfolding well_formed_def by simp
    with d(1) show ?thesis by simp
  qed
qed

lemma analyzeFirstCommit_well_formed:
  assumes "fst (analyzeFirstCommit g parseDiff st w) = Inr r" and "hasChanges r"
  shows "\<exists>d. details r = Some d \<and> well_formed d"
proof -
  from assms obtain d where d: "details r = Some d" "files d = map Some (s_files st)"
      "modified (changeTypes d) = []" "created (changeTypes d) = map Some (s_files st)"
    by (auto simp: analyzeFirstCommit_def Let_def split: if_splits sum.splits)
  then have "files d = map Some (s_files st) \<and> modified (changeTypes d) = map Some []
      \<and> created (changeTypes d) = map Some (s_files st)"
    by simp
  then have "well_formed d"
    unfolding well_formed_def
    by (rule_tac x = "s_files st" in exI, rule_tac x = "[]" in exI,
        rule_tac x = "s_files st" in exI)
  with d(1) show ?thesis by simp
qed

lemma analyzeChanges_try_cases:
  assumes "fst (analyzeChanges_try g parseDiff md w) = Inr r"
  shows "(\<exists>st v. fst (analyzeFirstCommit g parseDiff st v) = Inr r)
       \<or> (\<exists>cfg so st diffOutput scope.
             analyzeDiff cfg parseDiff md so st diffOutput scope = Inr r)"
proof (cases "checkIsRepo g")
  case (Inl m)
  with assms show ?thesis by (simp add: analyzeChanges_try_def)
next
  case repo: (Inr isRepo)
  show ?thesis
  proof (cases "statusPorcelain g")
    case (Inl m)
    with assms repo show ?thesis by (simp add: analyzeChanges_try_def split: if_splits)
  next
    case so: (Inr statusOutput)
    show ?thesis
    proof (cases "parsePorcelainStatus statusOutput")
      case (Inl e)
      with assms repo so show ?thesis by (simp add: analyzeChanges_try_def split: if_splits)
    next
      case st: (Inr st)
      show ?thesis
      proof (cases "checkHasHead g")
        case False
        with assms repo so st have
          "fst (analyzeFirstCommit g parseDiff st
                  (sent [CheckIsRepo, RevParseHead, StatusPorcelain] w)) = Inr r"
          by (simp add: analyzeChanges_try_def split: if_splits)
        then show ?thesis by blast
      next
        case True
        obtain res v where
          gd: "getDiff g md (sent [CheckIsRepo, RevParseHead, StatusPorcelain] w) = (res, v)"
          by (cases "getDiff g md (sent [CheckIsRepo, RevParseHead, StatusPorcelain] w)") simp
        show ?thesis
        proof (cases res)
          case (Inl e)
          with assms repo so st True gd show ?thesis
            by (simp add: analyzeChanges_try_def split: if_splits)
        next
          case (Inr ds)
          obtain diffOutput scope where "ds = (diffOutput, scope)" by (cases ds) simp
          with Inr assms repo so st True gd have
            "analyzeDiff (CONFIG v) parseDiff md statusOutput st diffOutput scope = Inr r"
            by (simp add: analyzeChanges_try_def split: if_splits)
          then show ?thesis by blast
        qed
      qed
    qed
  qed
qed

lemma analyzeChanges_well_formed:
  assumes "fst (analyzeChanges g parseDiff md w) = Inr r" and "hasChanges r"
  shows "\<exists>d. details r = Some d \<and> well_formed d"
proof -
  from assms(1) have "fst (analyzeChanges_try g parseDiff md w) = Inr r"
    by (cases "analyzeChanges_try g parseDiff md w")
       (auto simp: analyzeChanges_def split: sum.splits)
  from analyzeChanges_try_cases[OF this] show ?thesis
    using analyzeFirstCommit_well_formed analyzeDiff_well_formed assms(2) by blast
qed

section \<open>The commit message\<close>

lemma inferFeatureFromFiles_strings: "\<exists>w. inferFeatureFromFiles (map Some names) = Inr w"
  by (simp add: inferFeatureFromFiles_def those_map_Some Let_def)

lemma findCommonPath_strings: "\<exists>p. findCommonPath (map Some names) = Inr p"
  by (cases names) (simp_all add: findCommonPath_def those_map_Some Let_def)

lemma determineScope_strings: "\<exists>sc. determineScope (map Some names) cats = Inr sc"
proof -
  obtain p where "findCommonPath (map Some names) = Inr p"
    using findCommonPath_strings by blast
  then show ?thesis
    by (cases names) (simp_all add: determineScope_def Let_def)
qed

lemma describeSource_strings:
  "\<exists>s. describeSource
          \<lparr>modified = map Some ms, created = map Some cs, deleted = ds, renamed = rs\<rparr> n = Inr s"
proof -
  obtain w where w: "inferFeatureFromFiles (map Some ms) = Inr w"
    using inferFeatureFromFiles_strings by blast
  obtain v where v: "inferFeatureFromFiles (map Some cs) = Inr v"
    using inferFeatureFromFiles_strings by blast
  show ?thesis
    by (simp add: describeSource_def Let_def w v)
qed

lemma describeMany_strings:
  "\<exists>s. describeMany cats
          \<lparr>modified = map Some ms, created = map Some cs, deleted = ds, renamed = rs\<rparr> n = Inr s"
  using describeSource_strings[of ms cs ds rs n]
  by (auto simp: describeMany_def)

lemma generateDescription_strings:
  "\<exists>s. generateDescription cats
          \<lparr>modified = map Some ms, created = map Some cs, deleted = ds, renamed = rs\<rparr>
          (map Some names) = Inr s"
  using describeMany_strings[of cats ms cs ds rs "length names"]
  by (cases names) (auto simp: generateDescription_def Let_def)

text \<open>
  Claim C10: on every result of the analysis, \<^verbatim>\<open>generateCommitMessage\<close> returns
  \<^verbatim>\<open>null\<close> when \<^verbatim>\<open>hasChanges\<close> is false, and returns a string (it neither throws nor
  returns \<^verbatim>\<open>null\<close>) when \<^verbatim>\<open>hasChanges\<close> is true.
\<close>

theorem generateCommitMessage_null_iff_no_changes:
  assumes "fst (analyzeChanges g parseDiff md w) = Inr r"
  shows "(\<not> hasChanges r \<longrightarrow> generateCommitMessage r = Inr None)
       \<and> (hasChanges r \<longrightarrow> (\<exists>s. generateCommitMessage r = Inr (Some s)))"
proof (cases "hasChanges r")
  case False
  then show ?thesis by (simp add: generateCommitMessage_def)
next
  case True
  from analyzeChanges_well_formed[OF assms True] obtain d names ms cs where
    d: "details r = Some d" "files d = map Some names"
       "modified (changeTypes d) = map Some ms" "created (changeTypes d) = map Some cs"
    unfolding well_formed_def by blast
  have ct: "changeTypes d = \<lparr>modified = map Some ms, created = map Some cs,
      deleted = deleted (changeTypes d), renamed = renamed (changeTypes d)\<rparr>"
    using d(3,4) by (cases "changeTypes d") simp
  obtain sc where sc: "determineScope (files d) (categorization d) = Inr sc"
    unfolding d(2) using determineScope_strings by blast
  have "\<exists>s. generateDescription (categorization d) (changeTypes d) (files d) = Inr s"
    using generateDescription_strings[of "categorization d" ms cs "deleted (changeTypes d)"
        "renamed (changeTypes d)" names]
    by (simp add: ct[symmetric] d(2))
  then obtain s where s: "generateDescription (categorization d) (changeTypes d) (files d) = Inr s" ..
  from True d(1) sc s show ?thesis
    by (simp add: generateCommitMessage_def Let_def)
qed

theorem generateCommitMessage_null_iff_no_changes_witness:
  "(\<exists>r s. fst (analyzeChanges fresh_repo (parser_from []) ''all'' initial_world) = Inr r
      \<and> hasChanges r \<and> generateCommitMessage r = Inr (Some s))
   \<and> (\<exists>r. fst (analyzeChanges clean_repo (parser_from []) ''all'' initial_world) = Inr r
      \<and> \<not> hasChanges r \<and> generateCommitMessage r = Inr None)"
proof -
  have "\<exists>r. fst (analyzeChanges fresh_repo (parser_from []) ''all'' initial_world) = Inr r \<and> hasChanges r"
    by (simp add: fresh_repo_def model_defs str_defs)
  then obtain r where r: "fst (analyzeChanges fresh_repo (parser_from []) ''all'' initial_world) = Inr r"
    "hasChanges r" by blast
  have "\<exists>r. fst (analyzeChanges clean_repo (parser_from []) ''all'' initial_world) = Inr r \<and> \<not> hasChanges r"
    by (simp add: clean_repo_def model_defs str_defs parser_from_def)
  then obtain r' where r': "fst (analyzeChanges clean_repo (parser_from []) ''all'' initial_world) = Inr r'"
    "\<not> hasChanges r'" by blast
  from generateCommitMessage_null_iff_no_changes[OF r(1)] r
    generateCommitMessage_null_iff_no_changes[OF r'(1)] r'
  show ?thesis by blast
qed

section \<open>Supplements\<close>

text \<open>
  The statistics on records of the library's shape: every added and every deleted line
  is counted twice, once in its hunk and once in the count of its file.
\<close>

lemma count_changes:
  "foldl count_change (a, d) cs = (a + length (filter is_add cs), d + length (filter is_del cs))"
proof (induction cs arbitrary: a d)
  case Nil
  then show ?case by simp
next
  case (Cons c cs)
  then show ?case by (cases c) simp_all
qed

lemma count_chunks:
  "foldl count_chunk (a, d) chs =
     (a + length (filter is_add (concat (map changes chs))),
      d + length (filter is_del (concat (map changes chs))))"
  by (induction chs arbitrary: a d) (simp_all add: count_chunk_def count_changes)

lemma count_file_library_record:
  "library_record f \<Longrightarrow>
   count_file (a, d) f = (a + 2 * added_lines f, d + 2 * deleted_lines f)"
  by (auto simp: library_record_def count_file_def count_chunks added_lines_def deleted_lines_def)

lemma count_files_library_records:
  "list_all library_record fs \<Longrightarrow>
   foldl count_file (a, d) fs =
     (a + 2 * sum_list (map added_lines fs), d + 2 * sum_list (map deleted_lines fs))"
  by (induction fs arbitrary: a d) (simp_all add: count_file_library_record)

lemma calculateLineStats_library_records:
  "list_all library_record fs \<Longrightarrow>
   calculateLineStats fs =
     \<lparr>additions = 2 * sum_list (map added_lines fs),
      deletions = 2 * sum_list (map deleted_lines fs),
      total_lines = 2 * sum_list (map added_lines fs) + 2 * sum_list (map deleted_lines fs)\<rparr>"
  by (simp add: calculateLineStats_def count_files_library_records)

text \<open>
  The status parser on any line of at least four characters without the rename arrow,
  without \<^verbatim>\<open>M\<close> or \<^verbatim>\<open>D\<close> in a status column, and not \<^verbatim>\<open>A\<close> or \<^verbatim>\<open>??\<close>: no per-kind
  list changes; the path goes to \<^verbatim>\<open>files\<close>, unless the index column is \<^verbatim>\<open>R\<close>.
\<close>

lemma status_line_unrecognized:
  assumes "4 \<le> length line" and "\<not> str_includes line '' -> ''"
    and "line ! 0 \<noteq> CHR ''M''" and "line ! 1 \<noteq> CHR ''M''"
    and "line ! 0 \<noteq> CHR ''A''" and "\<not> (line ! 0 = CHR ''?'' \<and> line ! 1 = CHR ''?'')"
    and "line ! 0 \<noteq> CHR ''D''" and "line ! 1 \<noteq> CHR ''D''"
  shows "status_line st line =
           Inr (if line ! 0 = CHR ''R'' then st
                else st\<lparr>s_files := s_files st @ [trim (drop 3 line)]\<rparr>)"
  using assms by (auto simp: status_line_def Let_def)

text \<open>The elements of \<open>allFiles\<close> are distinct: the set holds a path once.\<close>

lemma distinct_set_add: "distinct s \<Longrightarrow> distinct (set_add x s)"
  by (simp add: set_add_def)

lemma allFiles_distinct: "distinct (allFiles (extractFileChanges parsed st))"
proof -
  let ?P = "\<lambda>fc. distinct (allFiles fc)"
  have d: "\<And>fc f. ?P fc \<Longrightarrow> ?P (diff_step fc f)"
    by (simp add: diff_step_def Let_def distinct_set_add)
  have m: "\<And>fc p. ?P fc \<Longrightarrow> ?P (merge_modified fc p)"
    by (simp add: merge_modified_def distinct_set_add)
  have c: "\<And>fc p. ?P fc \<Longrightarrow> ?P (merge_created fc p)"
    by (simp add: merge_created_def distinct_set_add)
  have e: "\<And>fc p. ?P fc \<Longrightarrow> ?P (merge_deleted fc p)"
    by (simp add: merge_deleted_def distinct_set_add)
  have r: "\<And>fc rn. ?P fc \<Longrightarrow> ?P (merge_renamed fc rn)"
    by (simp add: merge_renamed_def distinct_set_add)
  have 0: "?P empty_file_changes" by (simp add: empty_file_changes_def)
  have 1: "?P (foldl diff_step empty_file_changes parsed)"
    by (rule foldl_preserves[of ?P diff_step, OF d 0])
  have 2: "?P (foldl merge_modified (foldl diff_step empty_file_changes parsed) (s_modified st))"
    by (rule foldl_preserves[of ?P merge_modified, OF m 1])
  have 3: "?P (foldl merge_created
             (foldl merge_modified (foldl diff_step empty_file_changes parsed) (s_modified st))
             (s_created st))"
    by (rule foldl_preserves[of ?P merge_created, OF c 2])
  have 4: "?P (foldl merge_deleted (foldl merge_created
             (foldl merge_modified (foldl diff_step empty_file_changes parsed) (s_modified st))
             (s_created st)) (s_deleted st))"
    by (rule foldl_preserves[of ?P merge_deleted, OF e 3])
  show ?thesis
    unfolding extractFileChanges_def
    by (rule foldl_preserves[of ?P merge_renamed, OF r 4])
qed

lemma app_record_library_record: "library_record app_record"
  by (simp add: library_record_def app_record_def added_lines_def deleted_lines_def)

end
